theory Spec2Isabelle
  imports Complex_Main "HOL-Library.AList"
begin

section \<open>JavaScript values used by the transport layer\<close>

text \<open>
  A value produced by \<^verbatim>\<open>JSON.parse\<close> (and the JSON-like values callers pass as a request
  body). A number is the parsed numeric value; an object is the list of its own properties,
  each key once.
\<close>

datatype json =
    JNull
  | JBool bool
  | JNum real
  | JStr string
  | JArr "json list"
  | JObj "(string \<times> json) list"

text \<open>JavaScript truthiness (\<^verbatim>\<open>ToBoolean\<close>) on these values.\<close>

fun js_truthy :: "json \<Rightarrow> bool" where
  "js_truthy JNull = False"
| "js_truthy (JBool b) = b"
| "js_truthy (JNum n) = (n \<noteq> 0)"
| "js_truthy (JStr s) = (s \<noteq> [])"
| "js_truthy (JArr xs) = True"
| "js_truthy (JObj kvs) = True"

text \<open>
  \<^verbatim>\<open>typeof v === 'object' && v !== null\<close>: arrays and objects.
\<close>

fun is_object :: "json \<Rightarrow> bool" where
  "is_object (JArr xs) = True"
| "is_object (JObj kvs) = True"
| "is_object v = False"

text \<open>
  Reading a named property \<^verbatim>\<open>v.key\<close>; \<open>None\<close> is \<^verbatim>\<open>undefined\<close>. Only the names
  \<^verbatim>\<open>error\<close>, \<^verbatim>\<open>message\<close> and \<^verbatim>\<open>type\<close> are ever read, which an array does not have.
\<close>

fun get_prop :: "json \<Rightarrow> string \<Rightarrow> json option" where
  "get_prop (JObj kvs) k = map_of kvs k"
| "get_prop v k = None"

text \<open>
  An optional configuration field: absent, \<^verbatim>\<open>null\<close>, or a value.
\<close>

datatype 'a js_opt = Undefined | Null | Val 'a

text \<open>
  The digit for a value below sixteen, and the decimal rendering of a natural number, as a
  template literal renders a status code.
\<close>

definition digit_char :: "nat \<Rightarrow> char" where
  "digit_char d = ''0123456789ABCDEF'' ! d"

fun string_of_nat :: "nat \<Rightarrow> string" where
  "string_of_nat n =
     (if n < 10 then [digit_char n]
      else string_of_nat (n div 10) @ [digit_char (n mod 10)])"

declare string_of_nat.simps [simp del]

section \<open>Error model (\<^verbatim>\<open>types.ts\<close>)\<close>

text \<open>
  \<^verbatim>\<open>CGateError\<close> carries a message, an optional status code and an optional raw response;
  \<^verbatim>\<open>CGateAPIError\<close> extends it with an optional error type. The message is a string: \<^verbatim>\<open>Error\<close>
  stores the string conversion of the value handed to the constructor.
\<close>

record cgate_error =
  message :: string
  statusCode :: "nat option"
  response :: "json option"

record cgate_api_error = cgate_error +
  errorType :: "json option"

text \<open>
  Anything that can be thrown in the transport layer: the two SDK classes, or any other
  error object (\<^verbatim>\<open>TypeError\<close>, \<^verbatim>\<open>DOMException\<close>, \<^verbatim>\<open>SyntaxError\<close>, ...) with its \<^verbatim>\<open>name\<close> and message.
\<close>

datatype js_error =
    APIError cgate_api_error
  | SDKError cgate_error
  | OtherError string string

definition CGateError :: "string \<Rightarrow> js_error" where
  "CGateError msg = SDKError \<lparr>message = msg, statusCode = None, response = None\<rparr>"

text \<open>\<^verbatim>\<open>error instanceof CGateAPIError\<close>\<close>

fun instanceof_CGateAPIError :: "js_error \<Rightarrow> bool" where
  "instanceof_CGateAPIError (APIError e) = True"
| "instanceof_CGateAPIError e = False"

text \<open>
  \<^verbatim>\<open>error instanceof CGateError\<close>: the base class and its subclass.
\<close>

fun instanceof_CGateError :: "js_error \<Rightarrow> bool" where
  "instanceof_CGateError (APIError e) = True"
| "instanceof_CGateError (SDKError e) = True"
| "instanceof_CGateError (OtherError n m) = False"

text \<open>\<^verbatim>\<open>error.name\<close>\<close>

fun error_name :: "js_error \<Rightarrow> string" where
  "error_name (APIError e) = ''CGateAPIError''"
| "error_name (SDKError e) = ''CGateError''"
| "error_name (OtherError n m) = n"

section \<open>HTTP responses\<close>

text \<open>
  One result of \<^verbatim>\<open>reader.read()\<close> that is not
  \<^verbatim>\<open>done\<close>: a chunk (as decoded text) or a rejection.
\<close>

datatype read_result = Chunk string | ReadFails js_error

text \<open>
  A \<^verbatim>\<open>Response\<close>: status line, what \<^verbatim>\<open>response.json()\<close> settles with, and the chunks its body
  stream delivers (\<open>None\<close> when \<^verbatim>\<open>response.body\<close> is \<^verbatim>\<open>null\<close>).
\<close>

record http_response =
  status :: nat
  statusText :: string
  json_result :: "js_error + json"
  body_chunks :: "read_result list option"

text \<open>\<^verbatim>\<open>response.ok\<close>: the status is in the range 200 to 299.\<close>

definition ok :: "http_response \<Rightarrow> bool" where
  "ok r = (200 \<le> status r \<and> status r \<le> 299)"

section \<open>The platform and the injected HTTP primitive\<close>

text \<open>
  The \<^verbatim>\<open>AbortSignal\<close> handed to the primitive: the caller's own, or the signal of the
  \<^verbatim>\<open>AbortController\<close> created for the attempt with that index.
\<close>

datatype abort_signal = CallerSignal | ControllerSignal nat

record fetch_init =
  init_method :: string
  init_headers :: "(string \<times> string) list"
  init_body :: "string option"
  init_signal :: "abort_signal option"

datatype fetch_result = Resolves http_response | Rejects js_error

text \<open>
  The HTTP primitive (\<^verbatim>\<open>fetch\<close>). It may answer every call differently, so its answers are
  indexed by the number of calls the logical request has made before.
\<close>

type_synonym fetch_fn = "nat \<Rightarrow> string \<Rightarrow> fetch_init \<Rightarrow> fetch_result"

text \<open>
  The state of a \<^verbatim>\<open>URL\<close> object that \<^verbatim>\<open>buildURL\<close> touches: the serialised scheme, authority
  and path, the query (without its question mark), the list behind \<^verbatim>\<open>searchParams\<close>, and
  the fragment.
\<close>

record url =
  url_prefix :: string
  url_query :: "string option"
  url_searchParams :: "(string \<times> string) list"
  url_fragment :: "string option"

text \<open>
  What the JavaScript runtime provides and the transport layer calls: \<^verbatim>\<open>JSON.stringify\<close>,
  \<^verbatim>\<open>JSON.parse\<close> (\<open>None\<close> when it throws), the string conversion of a number, the
  \<^verbatim>\<open>URL\<close> constructor applied to a reference and a base (\<open>Inl\<close> when it throws), and
  \<^verbatim>\<open>globalThis.fetch\<close> when there is one.
\<close>

record platform =
  JSON_stringify :: "json \<Rightarrow> string"
  JSON_parse :: "string \<Rightarrow> json option"
  Number_toString :: "real \<Rightarrow> string"
  new_URL :: "string \<Rightarrow> string \<Rightarrow> js_error + url"
  globalThis_fetch :: "fetch_fn option"

section \<open>Translating error responses (\<^verbatim>\<open>handleErrorResponse\<close>)\<close>

fun join_comma :: "string list \<Rightarrow> string" where
  "join_comma [] = []"
| "join_comma [x] = x"
| "join_comma (x # y # zs) = x @ '','' @ join_comma (y # zs)"

text \<open>
  The string conversion \<^verbatim>\<open>String(v)\<close> that \<^verbatim>\<open>Error\<close> applies to its message; \<open>None\<close> is the
  \<^verbatim>\<open>TypeError\<close> it throws. An array is joined with commas, a \<^verbatim>\<open>null\<close> element giving the empty
  string. An object gives \<^verbatim>\<open>[object Object]\<close>, unless it has an own property \<^verbatim>\<open>toString\<close>: that
  property is not callable, \<^verbatim>\<open>valueOf\<close> returns no primitive, and the conversion throws.
\<close>

fun js_ToString :: "platform \<Rightarrow> json \<Rightarrow> string option" where
  "js_ToString P JNull = Some ''null''"
| "js_ToString P (JBool b) = Some (if b then ''true'' else ''false'')"
| "js_ToString P (JNum n) = Some (Number_toString P n)"
| "js_ToString P (JStr s) = Some s"
| "js_ToString P (JArr xs) =
     map_option join_comma
       (those (map (\<lambda>x. if x = JNull then Some [] else js_ToString P x) xs))"
| "js_ToString P (JObj kvs) =
     (if map_of kvs ''toString'' = None then Some ''[object Object]'' else None)"

text \<open>
  \<^verbatim>\<open>new CGateAPIError(message, statusCode, errorType, response)\<close>: \<open>Inr\<close> is the error object,
  \<open>Inl\<close> the \<^verbatim>\<open>TypeError\<close> that \<^verbatim>\<open>super(message)\<close> throws when the message has no string
  conversion.
\<close>

definition CGateAPIError ::
  "platform \<Rightarrow> json \<Rightarrow> nat \<Rightarrow> json option \<Rightarrow> json option \<Rightarrow> js_error + cgate_api_error" where
  "CGateAPIError P msg st ty resp =
     (case js_ToString P msg of
        None \<Rightarrow> Inl (OtherError ''TypeError'' ''Cannot convert object to primitive value'')
      | Some s \<Rightarrow> Inr \<lparr>message = s, statusCode = Some st, response = resp, errorType = ty\<rparr>)"

definition generic_message :: "http_response \<Rightarrow> string" where
  "generic_message r = ''HTTP '' @ string_of_nat (status r) @ '': '' @ statusText r"

text \<open>
  The variables \<^verbatim>\<open>errorMessage\<close>, \<^verbatim>\<open>errorType\<close> and \<^verbatim>\<open>responseData\<close> of \<^verbatim>\<open>handleErrorResponse\<close>
  after its \<^verbatim>\<open>try\<close> statement.
\<close>

definition error_details :: "http_response \<Rightarrow> json \<times> json option \<times> json option" where
  "error_details r =
     (let errorMessage = JStr (generic_message r) in
      case json_result r of
        Inl parse_failure \<Rightarrow> (errorMessage, None, None)
      | Inr responseData \<Rightarrow>
          if is_object responseData then
            (case get_prop responseData ''error'' of
               Some (JStr s) \<Rightarrow> (JStr s, None, Some responseData)
             | Some e \<Rightarrow>
                 if js_truthy e \<and> is_object e then
                   (case get_prop e ''message'' of
                      Some m \<Rightarrow> if js_truthy m then m else errorMessage
                    | None \<Rightarrow> errorMessage,
                    get_prop e ''type'', Some responseData)
                 else (errorMessage, None, Some responseData)
             | None \<Rightarrow> (errorMessage, None, Some responseData))
          else (errorMessage, None, Some responseData))"

text \<open>
  \<^verbatim>\<open>handleErrorResponse\<close> always throws; the model returns what it throws: the
  \<^verbatim>\<open>CGateAPIError\<close>, or the \<^verbatim>\<open>TypeError\<close> of constructing it.
\<close>

definition handleErrorResponse :: "platform \<Rightarrow> http_response \<Rightarrow> js_error" where
  "handleErrorResponse P r =
     (case error_details r of
        (errorMessage, errorTypeTag, responseData) \<Rightarrow>
          (case CGateAPIError P errorMessage (status r) errorTypeTag responseData of
             Inl thrown \<Rightarrow> thrown
           | Inr e \<Rightarrow> APIError e))"

section \<open>Client construction (\<^verbatim>\<open>client.ts\<close>, \<^verbatim>\<open>http.ts\<close>)\<close>

record HttpClient =
  baseURL :: string
  apiKey :: string
  timeout :: int
  maxRetries :: int
  fetchImpl :: fetch_fn

text \<open>
  \<^verbatim>\<open>baseURL.replace(/\/$/, '')\<close>: one trailing slash is removed.
\<close>

definition strip_trailing_slash :: "string \<Rightarrow> string" where
  "strip_trailing_slash s = (if s \<noteq> [] \<and> last s = CHR ''/'' then butlast s else s)"

definition HttpClient_new ::
  "platform \<Rightarrow> string \<Rightarrow> string \<Rightarrow> int \<Rightarrow> int \<Rightarrow> fetch_fn option \<Rightarrow> js_error + HttpClient" where
  "HttpClient_new P url key tmo retries fetch_arg =
     (case (case fetch_arg of Some f \<Rightarrow> Some f | None \<Rightarrow> globalThis_fetch P) of
        None \<Rightarrow> Inl (CGateError ''Fetch is not available. Please provide a fetch implementation.'')
      | Some f \<Rightarrow>
          Inr \<lparr>baseURL = strip_trailing_slash url, apiKey = key, timeout = tmo,
               maxRetries = retries, fetchImpl = f\<rparr>)"

text \<open>
  \<^verbatim>\<open>CGateClientOptions\<close>. Numbers are the integers a millisecond count or a retry count is;
  \<^verbatim>\<open>NaN\<close> and fractions are left out.
\<close>

record client_options =
  opt_apiKey :: string
  opt_baseURL :: "string js_opt"
  opt_timeout :: "int js_opt"
  opt_maxRetries :: "int js_opt"
  opt_fetch :: "fetch_fn option"

definition DEFAULT_BASE_URL :: string where
  "DEFAULT_BASE_URL = ''https://api.cognipeer.com/api/client/v1''"

definition DEFAULT_TIMEOUT :: int where
  "DEFAULT_TIMEOUT = 60000"

definition DEFAULT_MAX_RETRIES :: int where
  "DEFAULT_MAX_RETRIES = 3"

text \<open>
  The \<^verbatim>\<open>CGateClient\<close> constructor; the result is the \<^verbatim>\<open>HttpClient\<close> every resource shares.
  \<^verbatim>\<open>||\<close> replaces every falsy value, \<^verbatim>\<open>??\<close> only \<^verbatim>\<open>null\<close> and \<^verbatim>\<open>undefined\<close>.
\<close>

definition CGateClient_new :: "platform \<Rightarrow> client_options \<Rightarrow> js_error + HttpClient" where
  "CGateClient_new P options =
     (if opt_apiKey options = [] then Inl (OtherError ''Error'' ''API key is required'')
      else
        let url = (case opt_baseURL options of
                     Val s \<Rightarrow> if s \<noteq> [] then s else DEFAULT_BASE_URL
                   | _ \<Rightarrow> DEFAULT_BASE_URL);
            tmo = (case opt_timeout options of
                     Val t \<Rightarrow> if t \<noteq> 0 then t else DEFAULT_TIMEOUT
                   | _ \<Rightarrow> DEFAULT_TIMEOUT);
            retries = (case opt_maxRetries options of
                         Val n \<Rightarrow> n
                       | _ \<Rightarrow> DEFAULT_MAX_RETRIES)
        in HttpClient_new P url (opt_apiKey options) tmo retries (opt_fetch options))"

section \<open>Building the URL and the headers\<close>

text \<open>
  A query value: \<^verbatim>\<open>string | number | boolean | undefined\<close>.
\<close>

datatype query_value = QStr string | QNum real | QBool bool | QUndefined

text \<open>\<^verbatim>\<open>String(value)\<close> for the defined values.\<close>

fun String_of :: "platform \<Rightarrow> query_value \<Rightarrow> string" where
  "String_of P (QStr s) = s"
| "String_of P (QNum n) = Number_toString P n"
| "String_of P (QBool b) = (if b then ''true'' else ''false'')"
| "String_of P QUndefined = ''undefined''"

text \<open>
  The \<^verbatim>\<open>application/x-www-form-urlencoded\<close> serialiser behind \<^verbatim>\<open>searchParams\<close>, on strings
  given as their UTF-8 bytes: letters, digits and \<^verbatim>\<open>* - . _\<close> stay, a space becomes a plus
  sign, every other byte becomes a percent sign and two upper-case hexadecimal digits.
\<close>

definition form_unreserved :: "char \<Rightarrow> bool" where
  "form_unreserved c =
     (let n = (of_char c :: nat) in
      (48 \<le> n \<and> n \<le> 57) \<or> (65 \<le> n \<and> n \<le> 90) \<or> (97 \<le> n \<and> n \<le> 122)
      \<or> c = CHR ''*'' \<or> c = CHR ''-'' \<or> c = CHR ''.'' \<or> c = CHR ''_'')"

definition form_encode_byte :: "char \<Rightarrow> string" where
  "form_encode_byte c =
     (if c = CHR '' '' then ''+''
      else if form_unreserved c then [c]
      else [CHR ''%'', digit_char (of_char c div 16), digit_char (of_char c mod 16)])"

definition form_encode :: "string \<Rightarrow> string" where
  "form_encode s = concat (map form_encode_byte s)"

fun join_amp :: "string list \<Rightarrow> string" where
  "join_amp [] = []"
| "join_amp [x] = x"
| "join_amp (x # y # zs) = x @ ''&'' @ join_amp (y # zs)"

definition form_serialize :: "(string \<times> string) list \<Rightarrow> string" where
  "form_serialize ps = join_amp (map (\<lambda>(k, v). form_encode k @ ''='' @ form_encode v) ps)"

text \<open>
  \<^verbatim>\<open>url.searchParams.append(key, value)\<close>: the pair goes last and the
  query is rewritten.
\<close>

definition searchParams_append :: "string \<Rightarrow> string \<Rightarrow> url \<Rightarrow> url" where
  "searchParams_append k v u =
     u\<lparr>url_searchParams := url_searchParams u @ [(k, v)],
       url_query := Some (form_serialize (url_searchParams u @ [(k, v)]))\<rparr>"

text \<open>\<^verbatim>\<open>url.toString()\<close>\<close>

definition url_toString :: "url \<Rightarrow> string" where
  "url_toString u =
     url_prefix u
     @ (case url_query u of None \<Rightarrow> [] | Some q \<Rightarrow> ''?'' @ q)
     @ (case url_fragment u of None \<Rightarrow> [] | Some f \<Rightarrow> ''#'' @ f)"

text \<open>\<^verbatim>\<open>s.startsWith(p)\<close>\<close>

definition startsWith :: "string \<Rightarrow> string \<Rightarrow> bool" where
  "startsWith s p = (take (length p) s = p)"

text \<open>
  \<^verbatim>\<open>buildURL\<close>. The query is the list \<^verbatim>\<open>Object.entries\<close> gives, in its order; \<open>None\<close> is an
  absent query. \<open>Inl\<close> is the \<^verbatim>\<open>TypeError\<close> of the \<^verbatim>\<open>URL\<close> constructor.
\<close>

definition buildURL ::
  "platform \<Rightarrow> HttpClient \<Rightarrow> string \<Rightarrow> (string \<times> query_value) list option \<Rightarrow> js_error + string" where
  "buildURL P c path query =
     (case new_URL P (if startsWith path ''/'' then drop 1 path else path) (baseURL c) of
        Inl e \<Rightarrow> Inl e
      | Inr u \<Rightarrow>
          Inr (url_toString
            (case query of
               None \<Rightarrow> u
             | Some entries \<Rightarrow>
                 fold (\<lambda>(key, value) u'.
                         if value \<noteq> QUndefined then searchParams_append key (String_of P value) u'
                         else u')
                      entries u)))"

text \<open>
  \<^verbatim>\<open>buildHeaders\<close>: the three fixed headers, then the caller's spread
  over them.
\<close>

definition buildHeaders :: "HttpClient \<Rightarrow> (string \<times> string) list option \<Rightarrow> (string \<times> string) list" where
  "buildHeaders c customHeaders =
     fold (\<lambda>(k, v) hs. AList.update k v hs)
       (case customHeaders of None \<Rightarrow> [] | Some hs \<Rightarrow> hs)
       [(''Content-Type'', ''application/json''),
        (''Authorization'', ''Bearer '' @ apiKey c),
        (''User-Agent'', ''@cognipeer/cgate-sdk/1.0.0'')]"

section \<open>Single-shot requests with retry (\<^verbatim>\<open>HttpClient.request\<close>)\<close>

text \<open>
  Per-call options. \<open>signal\<close> is the caller's \<^verbatim>\<open>AbortSignal\<close>, an opaque object when present.
\<close>

record request_options =
  body :: "json option"
  query :: "(string \<times> query_value) list option"
  headers :: "(string \<times> string) list option"
  signal :: "unit option"

text \<open>
  The observable steps of a call, in the order they happen: arming the timeout timer of an
  attempt (with its delay in milliseconds), invoking the HTTP primitive, clearing the timer of
  an attempt, the backoff sleep (in milliseconds), a read from the body stream, and releasing
  the stream reader.
\<close>

datatype event =
    SetTimeout nat int
  | Fetch nat string fetch_init
  | ClearTimeout nat
  | Sleep nat
  | Read
  | ReleaseLock

text \<open>
  \<^verbatim>\<open>options.body ? JSON.stringify(options.body) : undefined\<close>
\<close>

definition body_init :: "platform \<Rightarrow> request_options \<Rightarrow> string option" where
  "body_init P options =
     (case body options of
        Some b \<Rightarrow> if js_truthy b then Some (JSON_stringify P b) else None
      | None \<Rightarrow> None)"

text \<open>
  The second argument of the primitive in \<^verbatim>\<open>request\<close>, for the attempt
  with the given index.
\<close>

definition request_init ::
  "platform \<Rightarrow> (string \<times> string) list \<Rightarrow> string \<Rightarrow> request_options \<Rightarrow> nat \<Rightarrow> fetch_init" where
  "request_init P hdrs method options attempt =
     \<lparr>init_method = method, init_headers = hdrs, init_body = body_init P options,
      init_signal = Some (case signal options of
                            Some s \<Rightarrow> CallerSignal
                          | None \<Rightarrow> ControllerSignal attempt)\<rparr>"

text \<open>
  The \<^verbatim>\<open>try\<close> block of one attempt: \<open>Inr\<close> is the returned data, \<open>Inl\<close> the error that
  reaches the \<^verbatim>\<open>catch\<close> clause. \<^verbatim>\<open>clearTimeout\<close> runs only after the primitive has resolved.
\<close>

definition attempt_once ::
  "platform \<Rightarrow> HttpClient \<Rightarrow> string \<Rightarrow> (string \<times> string) list \<Rightarrow> string \<Rightarrow> request_options
     \<Rightarrow> nat \<Rightarrow> (js_error + json) \<times> event list" where
  "attempt_once P c u hdrs method options attempt =
     (let init = request_init P hdrs method options attempt;
          issued = [SetTimeout attempt (timeout c), Fetch attempt u init]
      in case fetchImpl c attempt u init of
           Rejects e \<Rightarrow> (Inl e, issued)
         | Resolves r \<Rightarrow>
             if \<not> ok r then (Inl (handleErrorResponse P r), issued @ [ClearTimeout attempt])
             else (case json_result r of
                     Inl e \<Rightarrow> (Inl e, issued @ [ClearTimeout attempt])
                   | Inr data \<Rightarrow> (Inr data, issued @ [ClearTimeout attempt])))"

definition after_events :: "event list \<Rightarrow> 'a \<times> event list \<Rightarrow> 'a \<times> event list" where
  "after_events evs r = (fst r, evs @ snd r)"

text \<open>
  The retry loop from a given attempt index on, with \<^verbatim>\<open>lastError\<close>. The statement after the
  loop is reached only when the loop body never ran.
\<close>

function request_loop ::
  "platform \<Rightarrow> HttpClient \<Rightarrow> string \<Rightarrow> (string \<times> string) list \<Rightarrow> string \<Rightarrow> request_options
     \<Rightarrow> js_error option \<Rightarrow> nat \<Rightarrow> (js_error + json) \<times> event list" where
  "request_loop P c u hdrs method options lastError attempt =
     (if int attempt \<le> maxRetries c then
        (case attempt_once P c u hdrs method options attempt of
           (Inr data, evs) \<Rightarrow> (Inr data, evs)
         | (Inl error, evs) \<Rightarrow>
             if instanceof_CGateAPIError error \<or> error_name error = ''AbortError''
                \<or> int attempt = maxRetries c
             then (Inl error, evs)
             else after_events (evs @ [Sleep (2 ^ attempt * 1000)])
                    (request_loop P c u hdrs method options (Some error) (Suc attempt)))
      else
        (Inl (case lastError of
                Some e \<Rightarrow> e
              | None \<Rightarrow> CGateError ''Request failed after retries''), []))"
  by pat_completeness auto

termination
  by (relation "measure (\<lambda>(P, c, u, hdrs, method, options, lastError, attempt).
         nat (maxRetries c + 1 - int attempt))") auto

declare request_loop.simps [simp del]

definition request ::
  "platform \<Rightarrow> HttpClient \<Rightarrow> string \<Rightarrow> string \<Rightarrow> request_options \<Rightarrow> (js_error + json) \<times> event list" where
  "request P c method path options =
     (case buildURL P c path (query options) of
        Inl e \<Rightarrow> (Inl e, [])
      | Inr u \<Rightarrow> request_loop P c u (buildHeaders c (headers options)) method options None 0)"

text \<open>What a finished call did: the primitive's invocations and the backoff sleeps.\<close>

fun is_Fetch :: "event \<Rightarrow> bool" where
  "is_Fetch (Fetch i u init) = True"
| "is_Fetch ev = False"

fun is_Sleep :: "event \<Rightarrow> bool" where
  "is_Sleep (Sleep ms) = True"
| "is_Sleep ev = False"

definition attempts :: "event list \<Rightarrow> nat" where
  "attempts evs = length (filter is_Fetch evs)"

fun sleep_ms :: "event \<Rightarrow> nat" where
  "sleep_ms (Sleep ms) = ms"
| "sleep_ms ev = 0"

definition backoff_ms :: "event list \<Rightarrow> nat" where
  "backoff_ms evs = sum_list (map sleep_ms evs)"

section \<open>Streaming requests (\<^verbatim>\<open>HttpClient.stream\<close>)\<close>

text \<open>
  Strings are sequences of UTF-8 bytes. \<^verbatim>\<open>String.prototype.trim\<close> removes white space and line
  terminators from both ends; these are their UTF-8 encodings (tab, line feed, vertical tab,
  form feed, carriage return, space, U+00A0, U+1680, U+2000 to U+200A, U+2028, U+2029, U+202F,
  U+205F, U+3000, U+FEFF).
\<close>

definition js_whitespace :: "nat list list" where
  "js_whitespace =
     [[9], [10], [11], [12], [13], [32], [194, 160], [225, 154, 128],
      [226, 128, 128], [226, 128, 129], [226, 128, 130], [226, 128, 131], [226, 128, 132],
      [226, 128, 133], [226, 128, 134], [226, 128, 135], [226, 128, 136], [226, 128, 137],
      [226, 128, 138], [226, 128, 168], [226, 128, 169], [226, 128, 175], [226, 129, 159],
      [227, 128, 128], [239, 187, 191]]"

text \<open>
  The length of the white-space sequence a string starts with, 0 when there is none.
\<close>

definition ws_len :: "nat list list \<Rightarrow> string \<Rightarrow> nat" where
  "ws_len seqs s =
     (case List.find (\<lambda>w. take (length w) (map of_char s) = w) seqs of
        Some w \<Rightarrow> length w
      | None \<Rightarrow> 0)"

function strip_ws :: "nat list list \<Rightarrow> string \<Rightarrow> string" where
  "strip_ws seqs s =
     (if ws_len seqs s = 0 \<or> s = [] then s else strip_ws seqs (drop (ws_len seqs s) s))"
  by pat_completeness auto

termination
  by (relation "measure (\<lambda>(seqs, s). length s)") auto

declare strip_ws.simps [simp del]

definition trim :: "string \<Rightarrow> string" where
  "trim s = rev (strip_ws (map rev js_whitespace) (rev (strip_ws js_whitespace s)))"

text \<open>
  \<^verbatim>\<open>s.split(sep)\<close> for a one-character separator: the pieces between the
  separators.
\<close>

fun split_on :: "char \<Rightarrow> string \<Rightarrow> string list" where
  "split_on sep [] = [[]]"
| "split_on sep (c # cs) =
     (if c = sep then [] # split_on sep cs
      else (case split_on sep cs of
              l # ls \<Rightarrow> (c # l) # ls
            | [] \<Rightarrow> [[c]]))"

definition newline :: char where
  "newline = CHR 0x0A"

text \<open>
  The \<^verbatim>\<open>for\<close> loop over the complete lines of one chunk: the values it yields, and whether it
  returned at the \<^verbatim>\<open>[DONE]\<close> sentinel. A payload that \<^verbatim>\<open>JSON.parse\<close> rejects is skipped.
\<close>

fun process_lines :: "platform \<Rightarrow> string list \<Rightarrow> json list \<times> bool" where
  "process_lines P [] = ([], False)"
| "process_lines P (line # rest) =
     (let trimmed = trim line in
      if startsWith trimmed ''data: '' then
        (let data = drop 6 trimmed in
         if data = ''[DONE]'' then ([], True)
         else (case JSON_parse P data of
                 Some v \<Rightarrow> (case process_lines P rest of (ys, done) \<Rightarrow> (v # ys, done))
               | None \<Rightarrow> process_lines P rest))
      else process_lines P rest)"

text \<open>
  The \<^verbatim>\<open>while (true)\<close> loop over the reads that remain, with the current buffer: the values
  yielded, the error thrown (if any), and the reads made. A read past the last chunk is
  \<^verbatim>\<open>done\<close>. The text of a chunk is what the streaming decoder returns for it.
\<close>

fun read_loop :: "platform \<Rightarrow> read_result list \<Rightarrow> string \<Rightarrow> json list \<times> js_error option \<times> event list" where
  "read_loop P [] buffer = ([], None, [Read])"
| "read_loop P (ReadFails e # rs) buffer = ([], Some e, [Read])"
| "read_loop P (Chunk v # rs) buffer =
     (let lines = split_on newline (buffer @ v) in
      case process_lines P (butlast lines) of
        (ys, done) \<Rightarrow>
          if done then (ys, None, [Read])
          else (case read_loop P rs (last lines) of
                  (zs, err, evs) \<Rightarrow> (ys @ zs, err, Read # evs)))"

text \<open>
  The second argument of the primitive in \<^verbatim>\<open>stream\<close>: the caller's
  signal or none.
\<close>

definition stream_init ::
  "platform \<Rightarrow> (string \<times> string) list \<Rightarrow> string \<Rightarrow> request_options \<Rightarrow> fetch_init" where
  "stream_init P hdrs method options =
     \<lparr>init_method = method, init_headers = hdrs, init_body = body_init P options,
      init_signal = (case signal options of Some s \<Rightarrow> Some CallerSignal | None \<Rightarrow> None)\<rparr>"

text \<open>
  \<^verbatim>\<open>stream\<close>, run to its end: the values yielded in order, the error it throws (if any), and
  its observable steps.
\<close>

definition stream ::
  "platform \<Rightarrow> HttpClient \<Rightarrow> string \<Rightarrow> string \<Rightarrow> request_options
     \<Rightarrow> json list \<times> js_error option \<times> event list" where
  "stream P c method path options =
     (case buildURL P c path (query options) of
        Inl e \<Rightarrow> ([], Some e, [])
      | Inr u \<Rightarrow>
          (let init = stream_init P (buildHeaders c (headers options)) method options in
           case fetchImpl c 0 u init of
             Rejects e \<Rightarrow> ([], Some e, [Fetch 0 u init])
           | Resolves r \<Rightarrow>
               if \<not> ok r then ([], Some (handleErrorResponse P r), [Fetch 0 u init])
               else (case body_chunks r of
                       None \<Rightarrow> ([], Some (CGateError ''Response body is null''), [Fetch 0 u init])
                     | Some chunks \<Rightarrow>
                         (case read_loop P chunks [] of
                            (ys, err, evs) \<Rightarrow> (ys, err, [Fetch 0 u init] @ evs @ [ReleaseLock])))))"

subsection \<open>The decoded sequence, as the specification words it\<close>

text \<open>The complete lines of a text: every piece that a line feed ends.\<close>

definition complete_lines :: "string \<Rightarrow> string list" where
  "complete_lines text = butlast (split_on newline text)"

text \<open>
  The payloads of the trimmed complete lines that start with \<^verbatim>\<open>data: \<close>,
  in order.
\<close>

definition data_payloads :: "string \<Rightarrow> string list" where
  "data_payloads text =
     map (drop 6) (filter (\<lambda>l. startsWith l ''data: '') (map trim (complete_lines text)))"

text \<open>
  The JSON values of the payloads before the first \<^verbatim>\<open>[DONE]\<close>, leaving out the payloads that
  do not parse.
\<close>

definition sse_values :: "platform \<Rightarrow> string \<Rightarrow> json list" where
  "sse_values P text =
     List.map_filter (JSON_parse P) (takeWhile (\<lambda>p. p \<noteq> ''[DONE]'') (data_payloads text))"

definition reads :: "event list \<Rightarrow> nat" where
  "reads evs = length (filter (\<lambda>ev. ev = Read) evs)"

section \<open>Abort signals and the platform's \<^verbatim>\<open>fetch\<close>\<close>

text \<open>
  What surrounds one call of the platform's \<^verbatim>\<open>fetch\<close>: whether the timeout timer of the attempt
  elapses while the call is pending, whether the caller's signal is aborted while the call is
  pending (and with which abort reason), and how the call settles when nothing aborts it.
\<close>

record attempt_env =
  timer_fires :: bool
  caller_aborts :: "js_error option"
  settles :: fetch_result

text \<open>
  The reason of \<^verbatim>\<open>controller.abort()\<close> called without an argument.
\<close>

definition abort_error :: js_error where
  "abort_error = OtherError ''AbortError'' ''This operation was aborted''"

text \<open>
  \<^verbatim>\<open>fetch\<close> listens to the signal it was given and to no other: when that signal is aborted it
  rejects with the signal's abort reason.
\<close>

definition platform_fetch :: "(nat \<Rightarrow> attempt_env) \<Rightarrow> fetch_fn" where
  "platform_fetch env i u init =
     (case init_signal init of
        Some CallerSignal \<Rightarrow>
          (case caller_aborts (env i) of
             Some reason \<Rightarrow> Rejects reason
           | None \<Rightarrow> settles (env i))
      | Some (ControllerSignal j) \<Rightarrow>
          if timer_fires (env j) then Rejects abort_error else settles (env i)
      | None \<Rightarrow> settles (env i))"

section \<open>The \<^verbatim>\<open>URL\<close> constructor on plain inputs\<close>

text \<open>
  The URL Standard's parser, for a base of the form \<^verbatim>\<open>http(s)://host/segment/...\<close> and a
  reference made of path segments only: host labels of lower-case letters, segments of
  letters, digits and \<^verbatim>\<open>- . _ ~\<close>. On these inputs nothing is percent-encoded and there is no
  query or fragment. \<open>None\<close> is an input outside this fragment.
\<close>

definition lower_alpha :: "char \<Rightarrow> bool" where
  "lower_alpha c = (let n = (of_char c :: nat) in 97 \<le> n \<and> n \<le> 122)"

definition plain_path_char :: "char \<Rightarrow> bool" where
  "plain_path_char c =
     (let n = (of_char c :: nat) in
      (48 \<le> n \<and> n \<le> 57) \<or> (65 \<le> n \<and> n \<le> 90) \<or> (97 \<le> n \<and> n \<le> 122)
      \<or> c = CHR ''-'' \<or> c = CHR ''.'' \<or> c = CHR ''_'' \<or> c = CHR ''~'' \<or> c = CHR ''/'')"

definition valid_host :: "string \<Rightarrow> bool" where
  "valid_host h = list_all (\<lambda>l. l \<noteq> [] \<and> list_all lower_alpha l) (split_on CHR ''.'' h)"

text \<open>
  The path state over the segments that remain: \<^verbatim>\<open>..\<close> removes the last segment of the path,
  \<^verbatim>\<open>.\<close> adds nothing, and either leaves an empty last segment when it ends the input.
\<close>

fun path_state :: "string list \<Rightarrow> string list \<Rightarrow> string list" where
  "path_state [] p = p"
| "path_state [s] p =
     (if s = ''..'' then butlast p @ [[]]
      else if s = ''.'' then p @ [[]]
      else p @ [s])"
| "path_state (s # rest) p =
     (if s = ''..'' then path_state rest (butlast p)
      else if s = ''.'' then path_state rest p
      else path_state rest (p @ [s]))"

text \<open>The base: scheme and host as written, and the path segments.\<close>

definition parse_base :: "string \<Rightarrow> (string \<times> string list) option" where
  "parse_base s =
     (let scheme = (if startsWith s ''https://'' then ''https://''
                    else if startsWith s ''http://'' then ''http://''
                    else []);
          rest = drop (length scheme) s;
          host = takeWhile (\<lambda>c. c \<noteq> CHR ''/'') rest;
          p = dropWhile (\<lambda>c. c \<noteq> CHR ''/'') rest
      in if scheme \<noteq> [] \<and> valid_host host \<and> list_all plain_path_char p
         then Some (scheme @ host, path_state (split_on CHR ''/'' (drop 1 p)) [])
         else None)"

definition plain_url :: "string \<Rightarrow> string list \<Rightarrow> url" where
  "plain_url origin p =
     \<lparr>url_prefix = origin @ concat (map (\<lambda>seg. ''/'' @ seg) p), url_query = None,
      url_searchParams = [], url_fragment = None\<rparr>"

text \<open>
  \<^verbatim>\<open>new URL(reference, base)\<close>: an empty reference is the base; a reference with a leading
  slash replaces the base's path; any other reference replaces the last segment of the base's
  path.
\<close>

definition standard_URL :: "string \<Rightarrow> string \<Rightarrow> url option" where
  "standard_URL reference base =
     (case parse_base base of
        None \<Rightarrow> None
      | Some (origin, bpath) \<Rightarrow>
          if \<not> list_all plain_path_char reference \<or> startsWith reference ''//'' then None
          else if reference = [] then Some (plain_url origin bpath)
          else if startsWith reference ''/'' then
            Some (plain_url origin (path_state (split_on CHR ''/'' (drop 1 reference)) []))
          else
            Some (plain_url origin (path_state (split_on CHR ''/'' reference) (butlast bpath))))"

text \<open>
  A platform whose \<^verbatim>\<open>URL\<close> constructor follows the standard on these
  inputs.
\<close>

definition follows_URL_standard :: "platform \<Rightarrow> bool" where
  "follows_URL_standard P =
     (\<forall>reference base u. standard_URL reference base = Some u \<longrightarrow> new_URL P reference base = Inr u)"

section \<open>Auxiliary definitions\<close>

text \<open>
  The steps of an attempt whose call is rejected: the timer is armed and the primitive invoked.
\<close>

definition failed_attempt ::
  "platform \<Rightarrow> HttpClient \<Rightarrow> string \<Rightarrow> (string \<times> string) list \<Rightarrow> string \<Rightarrow> request_options
     \<Rightarrow> nat \<Rightarrow> event list" where
  "failed_attempt P c u hdrs method options i =
     [SetTimeout i (timeout c), Fetch i u (request_init P hdrs method options i)]"

text \<open>
  The payloads of given lines, and the values decoded from them up to the sentinel.
\<close>

definition line_payloads :: "string list \<Rightarrow> string list" where
  "line_payloads ls = map (drop 6) (filter (\<lambda>l. startsWith l ''data: '') (map trim ls))"

definition decoded :: "platform \<Rightarrow> string list \<Rightarrow> json list" where
  "decoded P ls = List.map_filter (JSON_parse P) (takeWhile (\<lambda>p. p \<noteq> ''[DONE]'') (line_payloads ls))"

section \<open>Example inputs\<close>

definition example_error :: js_error where
  "example_error = OtherError ''TypeError'' ''fetch failed''"

definition failing_fetch :: fetch_fn where
  "failing_fetch i u init = Rejects example_error"

text \<open>
  \<^verbatim>\<open>JSON.stringify\<close> on values whose strings need no escaping and whose
  numbers are natural numbers.
\<close>

fun example_stringify :: "json \<Rightarrow> string" where
  "example_stringify JNull = ''null''"
| "example_stringify (JBool b) = (if b then ''true'' else ''false'')"
| "example_stringify (JNum n) = string_of_nat (nat \<lfloor>n\<rfloor>)"
| "example_stringify (JStr s) = [CHR 0x22] @ s @ [CHR 0x22]"
| "example_stringify (JArr xs) = ''['' @ join_comma (map example_stringify xs) @ '']''"
| "example_stringify (JObj kvs) =
     ''{'' @ join_comma (map (\<lambda>(k, v). [CHR 0x22] @ k @ [CHR 0x22] @ '':'' @ example_stringify v) kvs)
     @ ''}''"

text \<open>
  \<^verbatim>\<open>JSON.parse\<close> on the payloads of the example stream: the two objects
  parse, anything else there does not.
\<close>

definition example_parse :: "string \<Rightarrow> json option" where
  \<open>example_parse s =
     (if s = ''{"a":1}'' then Some (JObj [(''a'', JNum 1)])
      else if s = ''{"b":2}'' then Some (JObj [(''b'', JNum 2)])
      else None)\<close>

text \<open>
  A platform for the examples: the serialiser and the parser above, and a \<^verbatim>\<open>URL\<close> constructor
  that is the standard's parser on plain inputs.
\<close>

definition example_platform :: platform where
  "example_platform =
     \<lparr>JSON_stringify = example_stringify, JSON_parse = example_parse,
      Number_toString = (\<lambda>n. string_of_nat (nat \<lfloor>n\<rfloor>)),
      new_URL = (\<lambda>reference base.
                   case standard_URL reference base of
                     Some u \<Rightarrow> Inr u
                   | None \<Rightarrow> Inl (OtherError ''TypeError'' ''Invalid URL'')),
      globalThis_fetch = None\<rparr>"



text \<open>
  500 responses whose bodies are \<^verbatim>\<open>{"error": {"message": 42}}\<close> and
  \<^verbatim>\<open>{"error": {"message": {"toString": 0}}}\<close>.
\<close>

definition number_message_response :: http_response where
  "number_message_response =
     \<lparr>status = 500, statusText = ''Internal Server Error'',
      json_result = Inr (JObj [(''error'', JObj [(''message'', JNum 42)])]),
      body_chunks = None\<rparr>"

definition unconvertible_message_response :: http_response where
  "unconvertible_message_response =
     \<lparr>status = 500, statusText = ''Internal Server Error'',
      json_result = Inr (JObj [(''error'', JObj [(''message'', JObj [(''toString'', JNum 0)])])]),
      body_chunks = None\<rparr>"

text \<open>Client options with an explicit timeout of 0 and an explicit retry count of 0.\<close>

definition zero_options :: client_options where
  "zero_options =
     \<lparr>opt_apiKey = ''test-key'', opt_baseURL = Undefined, opt_timeout = Val 0,
      opt_maxRetries = Val 0, opt_fetch = Some failing_fetch\<rparr>"

text \<open>
  A client for \<^verbatim>\<open>https://x.example.com\<close> with a given retry limit and
  HTTP primitive.
\<close>

definition example_client :: "int \<Rightarrow> fetch_fn \<Rightarrow> HttpClient" where
  "example_client n f =
     \<lparr>baseURL = ''https://x.example.com'', apiKey = ''test-key'', timeout = 60000,
      maxRetries = n, fetchImpl = f\<rparr>"

definition no_options :: request_options where
  "no_options = \<lparr>body = None, query = None, headers = None, signal = None\<rparr>"

definition example_headers :: "(string \<times> string) list" where
  "example_headers =
     [(''Content-Type'', ''application/json''), (''Authorization'', ''Bearer test-key''),
      (''User-Agent'', ''@cognipeer/cgate-sdk/1.0.0'')]"

text \<open>A 200 response with a JSON body.\<close>

definition ok_response :: http_response where
  "ok_response =
     \<lparr>status = 200, statusText = ''OK'', json_result = Inr (JObj [(''id'', JStr ''r1'')]),
      body_chunks = None\<rparr>"


text \<open>
  The timeout timer of the first attempt elapses while its call is pending; a later call would
  be answered with the 200 response.
\<close>

definition timeout_env :: "nat \<Rightarrow> attempt_env" where
  "timeout_env i = \<lparr>timer_fires = (i = 0), caller_aborts = None, settles = Resolves ok_response\<rparr>"

text \<open>
  An abort reason the caller chose:
  \<^verbatim>\<open>controller.abort(new Error("cancelled by user"))\<close>.
\<close>

definition cancel_reason :: js_error where
  "cancel_reason = OtherError ''Error'' ''cancelled by user''"

text \<open>The caller's signal is aborted with the given reason, and stays aborted.\<close>

definition cancel_env :: "js_error \<Rightarrow> nat \<Rightarrow> attempt_env" where
  "cancel_env reason i =
     \<lparr>timer_fires = False, caller_aborts = Some reason, settles = Resolves ok_response\<rparr>"

text \<open>Options that carry a caller signal and nothing else.\<close>

definition signal_options :: request_options where
  "signal_options = \<lparr>body = None, query = None, headers = None, signal = Some ()\<rparr>"

text \<open>
  Options whose body is the value \<^verbatim>\<open>false\<close>, and options whose body is
  \<^verbatim>\<open>{"model": "gpt-4"}\<close>.
\<close>

definition false_body_options :: request_options where
  "false_body_options = \<lparr>body = Some (JBool False), query = None, headers = None, signal = None\<rparr>"

definition model_body_options :: request_options where
  "model_body_options =
     \<lparr>body = Some (JObj [(''model'', JStr ''gpt-4'')]), query = None, headers = None,
      signal = None\<rparr>"

text \<open>
  A body delivered in two chunks that split a line: a malformed frame, a frame, a blank line,
  the sentinel, and a frame after the sentinel.
\<close>

definition sse_chunks :: "string list" where
  \<open>sse_chunks =
     [''data: not-json\<newline>data: {"a"'',
      '':1}\<newline>\<newline>data: [DONE]\<newline>data: {"b":2}\<newline>'']\<close>

definition sse_response :: http_response where
  "sse_response =
     \<lparr>status = 200, statusText = ''OK'',
      json_result = Inl (OtherError ''SyntaxError'' ''Unexpected token d in JSON''),
      body_chunks = Some (map Chunk sse_chunks)\<rparr>"

definition sse_fetch :: fetch_fn where
  "sse_fetch i u init = Resolves sse_response"

text \<open>
  Client options that leave the base URL to its default, and options with a versioned base URL.
\<close>

definition default_options :: client_options where
  "default_options =
     \<lparr>opt_apiKey = ''test-key'', opt_baseURL = Undefined, opt_timeout = Undefined,
      opt_maxRetries = Undefined, opt_fetch = Some failing_fetch\<rparr>"

definition versioned_options :: client_options where
  "versioned_options =
     \<lparr>opt_apiKey = ''test-key'', opt_baseURL = Val ''https://x.example.com/api/v1/'',
      opt_timeout = Undefined, opt_maxRetries = Undefined, opt_fetch = Some failing_fetch\<rparr>"

text \<open>
  After a network failure, the timer of the second attempt fires; or the caller aborts during
  the second attempt.
\<close>

definition network_then_timeout :: "nat \<Rightarrow> attempt_env" where
  "network_then_timeout i =
     \<lparr>timer_fires = (i = 1), caller_aborts = None,
      settles = (if i = 0 then Rejects example_error else Resolves ok_response)\<rparr>"

definition network_then_abort :: "nat \<Rightarrow> attempt_env" where
  "network_then_abort i =
     \<lparr>timer_fires = False, caller_aborts = (if i = 0 then None else Some abort_error),
      settles = (if i = 0 then Rejects example_error else Resolves ok_response)\<rparr>"

section \<open>Properties of the error translation\<close>




text \<open>An \<^verbatim>\<open>APIError\<close> is what is thrown exactly when the chosen message has a string conversion.\<close>

lemma raises_APIError_iff:
  "instanceof_CGateAPIError (handleErrorResponse P r)
     = (js_ToString P (fst (error_details r)) \<noteq> None)"
  by (cases "error_details r")
    (auto simp: handleErrorResponse_def CGateAPIError_def split: option.splits)






text \<open>
  A message that is not a string reaches the error converted to one, and a message without a
  string conversion makes the construction of the error throw.
\<close>

lemma handleErrorResponse_number_message:
  "handleErrorResponse P number_message_response =
     APIError \<lparr>message = Number_toString P 42, statusCode = Some 500,
               response = Some (JObj [(''error'', JObj [(''message'', JNum 42)])]),
               errorType = None\<rparr>"
  by (simp add: handleErrorResponse_def error_details_def CGateAPIError_def
      number_message_response_def)

lemma handleErrorResponse_unconvertible_message:
  "handleErrorResponse P unconvertible_message_response =
     OtherError ''TypeError'' ''Cannot convert object to primitive value''"
  by (simp add: handleErrorResponse_def error_details_def CGateAPIError_def
      unconvertible_message_response_def)




section \<open>Properties of client construction\<close>

text \<open>
  C10: with a non-empty API key and a fetch implementation (passed in or global), construction
  succeeds; an explicit timeout of 0 (like \<^verbatim>\<open>null\<close> and \<^verbatim>\<open>undefined\<close>) gives the default 60000 ms while any other
  timeout is kept; an explicit \<^verbatim>\<open>maxRetries\<close> (0 included) is kept, and only \<^verbatim>\<open>null\<close> or
  \<^verbatim>\<open>undefined\<close> gives the default 3.
\<close>

theorem C10_constructor_defaults:
  assumes "opt_apiKey options \<noteq> []"
    and "opt_fetch options \<noteq> None \<or> globalThis_fetch P \<noteq> None"
  shows "\<exists>c. CGateClient_new P options = Inr c
           \<and> (opt_timeout options = Val 0 \<longrightarrow> timeout c = 60000)
           \<and> (opt_timeout options = Null \<or> opt_timeout options = Undefined \<longrightarrow> timeout c = 60000)
           \<and> (\<forall>t. opt_timeout options = Val t \<and> t \<noteq> 0 \<longrightarrow> timeout c = t)
           \<and> (opt_maxRetries options = Val 0 \<longrightarrow> maxRetries c = 0)
           \<and> (\<forall>n. opt_maxRetries options = Val n \<longrightarrow> maxRetries c = n)
           \<and> (opt_maxRetries options = Null \<or> opt_maxRetries options = Undefined
                 \<longrightarrow> maxRetries c = 3)"
  using assms
  by (auto simp: CGateClient_new_def HttpClient_new_def DEFAULT_TIMEOUT_def
      DEFAULT_MAX_RETRIES_def Let_def split: js_opt.splits option.splits)

theorem C10_constructor_defaults_witness:
  "opt_apiKey zero_options \<noteq> [] \<and> opt_fetch zero_options \<noteq> None
   \<and> opt_timeout zero_options = Val 0 \<and> opt_maxRetries zero_options = Val 0
   \<and> (\<exists>c. CGateClient_new example_platform zero_options = Inr c
          \<and> timeout c = 60000 \<and> maxRetries c = 0)"
  using C10_constructor_defaults [of zero_options example_platform]
  by (simp add: zero_options_def)

section \<open>Properties of the retry loop\<close>

lemma attempt_once_rejects:
  "fetchImpl c a u (request_init P hdrs meth options a) = Rejects e \<Longrightarrow>
   attempt_once P c u hdrs meth options a =
     (Inl e, [SetTimeout a (timeout c), Fetch a u (request_init P hdrs meth options a)])"
  by (simp add: attempt_once_def Let_def)


lemma request_loop_throws:
  assumes "int a \<le> maxRetries c"
    and "attempt_once P c u hdrs meth options a = (Inl e, evs)"
    and "instanceof_CGateAPIError e \<or> error_name e = ''AbortError'' \<or> int a = maxRetries c"
  shows "request_loop P c u hdrs meth options le a = (Inl e, evs)"
  using assms by (subst request_loop.simps) auto

lemma request_loop_retries:
  assumes "int a < maxRetries c"
    and "attempt_once P c u hdrs meth options a = (Inl e, evs)"
    and "\<not> instanceof_CGateAPIError e" and "error_name e \<noteq> ''AbortError''"
  shows "request_loop P c u hdrs meth options le a =
           after_events (evs @ [Sleep (2 ^ a * 1000)])
             (request_loop P c u hdrs meth options (Some e) (Suc a))"
  using assms by (subst request_loop.simps) auto

lemma request_loop_all_fail:
  assumes rej: "\<And>i. fetchImpl c i u (request_init P hdrs meth options i) = Rejects (errs i)"
    and napi: "\<And>i. \<not> instanceof_CGateAPIError (errs i)"
    and nabort: "\<And>i. error_name (errs i) \<noteq> ''AbortError''"
    and N: "maxRetries c = int N"
  shows "a \<le> N \<Longrightarrow>
    request_loop P c u hdrs meth options le a =
      (Inl (errs N),
       concat (map (\<lambda>i. failed_attempt P c u hdrs meth options i @ [Sleep (2 ^ i * 1000)]) [a..<N])
       @ failed_attempt P c u hdrs meth options N)"
proof (induction "N - a" arbitrary: a le)
  case 0
  then have "a = N" by simp
  then show ?case
    using request_loop_throws [of a c P u hdrs meth options "errs a" _ le]
      attempt_once_rejects [OF rej, of a] N
    by (simp add: failed_attempt_def)
next
  case (Suc k)
  then have lt: "a < N" and k: "k = N - Suc a" and le': "Suc a \<le> N" by simp_all
  have step: "request_loop P c u hdrs meth options le a =
           after_events (failed_attempt P c u hdrs meth options a @ [Sleep (2 ^ a * 1000)])
             (request_loop P c u hdrs meth options (Some (errs a)) (Suc a))"
    using request_loop_retries [of a c P u hdrs meth options "errs a" _ le]
      attempt_once_rejects [OF rej, of a] N lt napi nabort
    by (simp add: failed_attempt_def)
  show ?case
    unfolding step Suc.hyps(1) [OF k le']
    using lt by (simp add: after_events_def upt_conv_Cons)
qed

lemma attempts_failed: "attempts (failed_attempt P c u hdrs meth options i) = 1"
  by (simp add: attempts_def failed_attempt_def)

lemma attempts_append: "attempts (xs @ ys) = attempts xs + attempts ys"
  by (simp add: attempts_def)

lemma backoff_append: "backoff_ms (xs @ ys) = backoff_ms xs + backoff_ms ys"
  by (simp add: backoff_ms_def)

lemma attempts_rounds:
  "attempts (concat (map (\<lambda>i. failed_attempt P c u hdrs meth options i @ [Sleep (g i)]) xs))
     = length xs"
  by (induction xs) (simp_all add: attempts_append attempts_failed, simp_all add: attempts_def)

lemma backoff_rounds:
  "backoff_ms (concat (map (\<lambda>i. failed_attempt P c u hdrs meth options i @ [Sleep (g i)]) xs))
     = sum_list (map g xs)"
  by (induction xs) (simp_all add: backoff_append, simp_all add: backoff_ms_def failed_attempt_def)

lemma sleeps_rounds:
  "filter is_Sleep (concat (map (\<lambda>i. failed_attempt P c u hdrs meth options i @ [Sleep (g i)]) xs))
     = map (\<lambda>i. Sleep (g i)) xs"
  by (induction xs) (simp_all add: failed_attempt_def)

lemma sum_pow2: "sum_list (map (\<lambda>i. 2 ^ i * 1000) [0..<N]) = (2 ^ N - 1) * (1000::nat)"
  by (induction N) (simp_all add: algebra_simps)

lemma example_buildURL:
  "buildURL example_platform (example_client n f) ''/x'' None = Inr ''https://x.example.com/x''"
  by (simp add: buildURL_def example_platform_def example_client_def startsWith_def
      url_toString_def standard_URL_def parse_base_def valid_host_def plain_path_char_def
      lower_alpha_def plain_url_def Let_def)

lemma example_buildHeaders: "buildHeaders (example_client n f) None = example_headers"
  by (simp add: buildHeaders_def example_client_def example_headers_def)

text \<open>
  C2: with \<^verbatim>\<open>maxRetries = N\<close> and a primitive that rejects every call with an error that is
  neither a \<^verbatim>\<open>CGateAPIError\<close> nor named \<^verbatim>\<open>AbortError\<close>, the call makes exactly \<open>N + 1\<close> attempts,
  one after the other, sleeps \<open>2 ^ i\<close> seconds between attempt \<open>i\<close> and attempt \<open>i + 1\<close>, so
  \<open>2 ^ N - 1\<close> seconds in all, and then rejects with the last error.
\<close>

theorem C2_retry_count:
  assumes url: "buildURL P c path (query options) = Inr u"
    and N: "maxRetries c = int N"
    and rej: "\<And>i. fetchImpl c i u (request_init P (buildHeaders c (headers options)) meth options i)
                 = Rejects (errs i)"
    and napi: "\<And>i. \<not> instanceof_CGateAPIError (errs i)"
    and nabort: "\<And>i. error_name (errs i) \<noteq> ''AbortError''"
  shows "request P c meth path options =
           (Inl (errs N),
            concat (map (\<lambda>i. [SetTimeout i (timeout c),
                               Fetch i u (request_init P (buildHeaders c (headers options)) meth options i),
                               Sleep (2 ^ i * 1000)]) [0..<N])
            @ [SetTimeout N (timeout c),
               Fetch N u (request_init P (buildHeaders c (headers options)) meth options N)])
     \<and> attempts (snd (request P c meth path options)) = N + 1
     \<and> filter is_Sleep (snd (request P c meth path options))
         = map (\<lambda>i. Sleep (2 ^ i * 1000)) [0..<N]
     \<and> backoff_ms (snd (request P c meth path options)) = (2 ^ N - 1) * 1000"
proof -
  let ?hdrs = "buildHeaders c (headers options)"
  let ?evs = "concat (map (\<lambda>i. failed_attempt P c u ?hdrs meth options i @ [Sleep (2 ^ i * 1000)]) [0..<N])
       @ failed_attempt P c u ?hdrs meth options N"
  have req: "request P c meth path options = (Inl (errs N), ?evs)"
    using request_loop_all_fail [OF rej napi nabort N, of 0 None] url
    by (simp add: request_def)
  have "attempts ?evs = N + 1"
    by (simp add: attempts_append attempts_rounds attempts_failed)
  moreover have "filter is_Sleep ?evs = map (\<lambda>i. Sleep (2 ^ i * 1000)) [0..<N]"
    by (simp add: sleeps_rounds) (simp add: failed_attempt_def)
  moreover have "backoff_ms ?evs = (2 ^ N - 1) * 1000"
    by (simp add: backoff_append backoff_rounds sum_pow2) (simp add: backoff_ms_def failed_attempt_def)
  moreover have "?evs = concat (map (\<lambda>i. [SetTimeout i (timeout c),
                                  Fetch i u (request_init P ?hdrs meth options i),
                                  Sleep (2 ^ i * 1000)]) [0..<N])
             @ [SetTimeout N (timeout c), Fetch N u (request_init P ?hdrs meth options N)]"
    by (simp add: failed_attempt_def)
  ultimately show ?thesis
    unfolding req by simp
qed

theorem C2_retry_count_witness:
  "buildURL example_platform (example_client 2 failing_fetch) ''/x'' (query no_options)
     = Inr ''https://x.example.com/x''
   \<and> maxRetries (example_client 2 failing_fetch) = int 2
   \<and> (\<forall>i. fetchImpl (example_client 2 failing_fetch) i ''https://x.example.com/x''
            (request_init example_platform
               (buildHeaders (example_client 2 failing_fetch) (headers no_options)) ''GET'' no_options i)
          = Rejects example_error)
   \<and> \<not> instanceof_CGateAPIError example_error
   \<and> error_name example_error \<noteq> ''AbortError''
   \<and> fst (request example_platform (example_client 2 failing_fetch) ''GET'' ''/x'' no_options)
       = Inl example_error
   \<and> attempts (snd (request example_platform (example_client 2 failing_fetch) ''GET'' ''/x'' no_options)) = 3
   \<and> filter is_Sleep (snd (request example_platform (example_client 2 failing_fetch) ''GET'' ''/x'' no_options))
       = [Sleep 1000, Sleep 2000]
   \<and> backoff_ms (snd (request example_platform (example_client 2 failing_fetch) ''GET'' ''/x'' no_options)) = 3000"
proof -
  have url: "buildURL example_platform (example_client 2 failing_fetch) ''/x'' (query no_options)
     = Inr ''https://x.example.com/x''"
    using example_buildURL by (simp add: no_options_def)
  have N: "maxRetries (example_client 2 failing_fetch) = int 2"
    by (simp add: example_client_def)
  have rej: "\<And>i. fetchImpl (example_client 2 failing_fetch) i ''https://x.example.com/x''
            (request_init example_platform
               (buildHeaders (example_client 2 failing_fetch) (headers no_options)) ''GET'' no_options i)
          = Rejects example_error"
    by (simp add: example_client_def failing_fetch_def)
  have napi: "\<And>i::nat. \<not> instanceof_CGateAPIError example_error"
    and nabort: "\<And>i::nat. error_name example_error \<noteq> ''AbortError''"
    by (simp_all add: example_error_def)
  have up: "[0..<2] = [0, Suc 0]"
    by (simp add: upt_rec)
  note t = C2_retry_count [OF url N rej napi nabort]
  have a: "fst (request example_platform (example_client 2 failing_fetch) ''GET'' ''/x'' no_options)
       = Inl example_error"
    using t [THEN conjunct1] by simp
  have b: "attempts (snd (request example_platform (example_client 2 failing_fetch) ''GET'' ''/x'' no_options)) = 3"
    using t [THEN conjunct2, THEN conjunct1] by simp
  have c: "filter is_Sleep (snd (request example_platform (example_client 2 failing_fetch) ''GET'' ''/x'' no_options))
       = [Sleep 1000, Sleep 2000]"
    using t [THEN conjunct2, THEN conjunct2, THEN conjunct1] by (simp add: up)
  have d: "backoff_ms (snd (request example_platform (example_client 2 failing_fetch) ''GET'' ''/x'' no_options)) = 3000"
    using t [THEN conjunct2, THEN conjunct2, THEN conjunct2] by simp
  show ?thesis
    using url N rej napi nabort a b c d by simp
qed

lemma attempt_once_fetches:
  "Fetch i u' init \<in> set (snd (attempt_once P c u hdrs meth options a)) \<Longrightarrow>
   init = request_init P hdrs meth options i \<and> u' = u \<and> i = a"
  by (auto simp: attempt_once_def Let_def split: fetch_result.splits if_splits sum.splits)

lemma request_loop_fetches:
  "Fetch i u' init \<in> set (snd (request_loop P c u hdrs meth options le a)) \<Longrightarrow>
   init = request_init P hdrs meth options i \<and> u' = u"
proof (induction P c u hdrs meth options le a rule: request_loop.induct)
  case (1 P c u hdrs meth options lastError attempt)
  show ?case
  proof (cases "int attempt \<le> maxRetries c")
    case False
    with "1.prems" show ?thesis
      by (subst (asm) request_loop.simps) simp
  next
    case True
    obtain x evs where att: "attempt_once P c u hdrs meth options attempt = (x, evs)"
      by (cases "attempt_once P c u hdrs meth options attempt")
    have evs: "Fetch i u' init \<in> set evs \<Longrightarrow> init = request_init P hdrs meth options i \<and> u' = u"
      using attempt_once_fetches [of i u' init P c u hdrs meth options attempt] att by simp
    show ?thesis
    proof (cases x)
      case (Inr data)
      with "1.prems" True att evs show ?thesis
        by (subst (asm) request_loop.simps) simp
    next
      case (Inl error)
      show ?thesis
      proof (cases "instanceof_CGateAPIError error \<or> error_name error = ''AbortError''
                \<or> int attempt = maxRetries c")
        case stop: True
        with "1.prems" True att evs Inl show ?thesis
          by (subst (asm) request_loop.simps) auto
      next
        case go: False
        from "1.prems" True att Inl go
        have "Fetch i u' init \<in> set evs
           \<or> Fetch i u' init \<in> set (snd (request_loop P c u hdrs meth options (Some error) (Suc attempt)))"
          by (subst (asm) request_loop.simps) (auto simp: after_events_def)
        then show ?thesis
          using evs "1.IH" [OF True att [symmetric] Inl go] by blast
      qed
    qed
  qed
qed

lemma example_buildURL_signal:
  "buildURL example_platform (example_client n f) ''/x'' (query signal_options)
     = Inr ''https://x.example.com/x''"
  using example_buildURL by (simp add: signal_options_def)

lemma example_buildURL_none:
  "buildURL example_platform (example_client n f) ''/x'' (query no_options)
     = Inr ''https://x.example.com/x''"
  using example_buildURL by (simp add: no_options_def)

lemma example_headers_none: "buildHeaders (example_client n f) (headers no_options) = example_headers"
  using example_buildHeaders by (simp add: no_options_def)

lemma example_headers_signal: "buildHeaders (example_client n f) (headers signal_options) = example_headers"
  using example_buildHeaders by (simp add: signal_options_def)



text \<open>
  C8 fails on the code: \<^verbatim>\<open>clearTimeout\<close> is the statement after the awaited call, so it is
  skipped when the primitive rejects. Here the only attempt is rejected with a \<^verbatim>\<open>TypeError\<close>;
  its timer was armed and is never cleared.
\<close>

theorem C8_timer_not_cleared_on_rejection:
  "request example_platform (example_client 0 failing_fetch) ''GET'' ''/x'' no_options =
     (Inl (OtherError ''TypeError'' ''fetch failed''),
      [SetTimeout 0 60000,
       Fetch 0 ''https://x.example.com/x''
         \<lparr>init_method = ''GET'', init_headers = example_headers, init_body = None,
          init_signal = Some (ControllerSignal 0)\<rparr>])
   \<and> ClearTimeout 0 \<notin> set (snd (request example_platform (example_client 0 failing_fetch)
                                     ''GET'' ''/x'' no_options))"
proof -
  have rej: "fetchImpl (example_client 0 failing_fetch) 0 ''https://x.example.com/x''
        (request_init example_platform example_headers ''GET'' no_options 0) = Rejects example_error"
    by (simp add: example_client_def failing_fetch_def)
  have "request example_platform (example_client 0 failing_fetch) ''GET'' ''/x'' no_options =
     (Inl example_error,
      [SetTimeout 0 (timeout (example_client 0 failing_fetch)),
       Fetch 0 ''https://x.example.com/x'' (request_init example_platform example_headers ''GET'' no_options 0)])"
    using request_loop_throws [OF _ attempt_once_rejects [OF rej], where le = None]
    by (simp add: request_def example_buildURL_none example_headers_none)
      (simp add: example_client_def)
  then show ?thesis
    by (simp add: example_error_def example_client_def request_init_def body_init_def
        no_options_def)
qed

lemma platform_fetch_timer:
  assumes "fetchImpl c = platform_fetch env" and "signal options = None" and "timer_fires (env a)"
  shows "fetchImpl c a u (request_init P hdrs meth options a) = Rejects abort_error"
  using assms by (simp add: platform_fetch_def request_init_def)

lemma platform_fetch_caller:
  assumes "fetchImpl c = platform_fetch env" and "signal options = Some s"
    and "caller_aborts (env a) = Some reason"
  shows "fetchImpl c a u (request_init P hdrs meth options a) = Rejects reason"
  using assms by (simp add: platform_fetch_def request_init_def)

lemma request_loop_stops_at:
  assumes rej: "\<And>i. i < k \<Longrightarrow> fetchImpl c i u (request_init P hdrs meth options i) = Rejects (errs i)"
    and napi: "\<And>i. i < k \<Longrightarrow> \<not> instanceof_CGateAPIError (errs i)"
    and nabort: "\<And>i. i < k \<Longrightarrow> error_name (errs i) \<noteq> ''AbortError''"
    and k: "int k \<le> maxRetries c"
    and att: "attempt_once P c u hdrs meth options k = (Inl e, evs)"
    and stop: "instanceof_CGateAPIError e \<or> error_name e = ''AbortError'' \<or> int k = maxRetries c"
  shows "a \<le> k \<Longrightarrow>
    request_loop P c u hdrs meth options le a =
      (Inl e,
       concat (map (\<lambda>i. failed_attempt P c u hdrs meth options i @ [Sleep (2 ^ i * 1000)]) [a..<k])
       @ evs)"
proof (induction "k - a" arbitrary: a le)
  case 0
  then have "a = k" by simp
  then show ?case
    using request_loop_throws [OF k att stop, where le = le] by simp
next
  case (Suc j)
  then have lt: "a < k" and j: "j = k - Suc a" and le': "Suc a \<le> k" by simp_all
  have "int a < maxRetries c"
    using lt k by simp
  then have step: "request_loop P c u hdrs meth options le a =
           after_events (failed_attempt P c u hdrs meth options a @ [Sleep (2 ^ a * 1000)])
             (request_loop P c u hdrs meth options (Some (errs a)) (Suc a))"
    using request_loop_retries [OF _ attempt_once_rejects [OF rej [OF lt]] napi [OF lt] nabort [OF lt],
        where le = le]
    by (simp add: failed_attempt_def)
  show ?case
    unfolding step Suc.hyps(1) [OF j le']
    using lt by (simp add: after_events_def upt_conv_Cons)
qed

lemma request_stops_at:
  assumes url: "buildURL P c path (query options) = Inr u"
    and rej: "\<And>i. i < k \<Longrightarrow>
        fetchImpl c i u (request_init P (buildHeaders c (headers options)) meth options i) = Rejects (errs i)"
    and napi: "\<And>i. i < k \<Longrightarrow> \<not> instanceof_CGateAPIError (errs i)"
    and nabort: "\<And>i. i < k \<Longrightarrow> error_name (errs i) \<noteq> ''AbortError''"
    and k: "int k \<le> maxRetries c"
    and last: "fetchImpl c k u (request_init P (buildHeaders c (headers options)) meth options k) = Rejects e"
    and stop: "error_name e = ''AbortError''"
  shows "request P c meth path options =
      (Inl e,
       concat (map (\<lambda>i. [SetTimeout i (timeout c),
                          Fetch i u (request_init P (buildHeaders c (headers options)) meth options i),
                          Sleep (2 ^ i * 1000)]) [0..<k])
       @ [SetTimeout k (timeout c),
          Fetch k u (request_init P (buildHeaders c (headers options)) meth options k)])"
    and "attempts (snd (request P c meth path options)) = k + 1"
    and "filter is_Sleep (snd (request P c meth path options)) = map (\<lambda>i. Sleep (2 ^ i * 1000)) [0..<k]"
proof -
  let ?hdrs = "buildHeaders c (headers options)"
  let ?evs = "concat (map (\<lambda>i. failed_attempt P c u ?hdrs meth options i @ [Sleep (2 ^ i * 1000)]) [0..<k])
       @ failed_attempt P c u ?hdrs meth options k"
  have req: "request P c meth path options = (Inl e, ?evs)"
    using request_loop_stops_at [OF rej napi nabort k attempt_once_rejects [OF last], of 0 None] stop url
    by (simp add: request_def failed_attempt_def)
  then show "request P c meth path options =
      (Inl e,
       concat (map (\<lambda>i. [SetTimeout i (timeout c),
                          Fetch i u (request_init P ?hdrs meth options i),
                          Sleep (2 ^ i * 1000)]) [0..<k])
       @ [SetTimeout k (timeout c), Fetch k u (request_init P ?hdrs meth options k)])"
    by (simp add: failed_attempt_def)
  show "attempts (snd (request P c meth path options)) = k + 1"
    unfolding req by (simp add: attempts_append attempts_rounds attempts_failed)
  show "filter is_Sleep (snd (request P c meth path options)) = map (\<lambda>i. Sleep (2 ^ i * 1000)) [0..<k]"
    unfolding req by (simp add: sleeps_rounds) (simp add: failed_attempt_def)
qed

text \<open>
  C3, as stated, fails: with \<^verbatim>\<open>maxRetries = 3\<close> and no caller signal, the timer of the first
  attempt fires; the call rejects with the \<^verbatim>\<open>AbortError\<close> after that single attempt, with no
  backoff and no retry.
\<close>

theorem C3_timeout_counterexample:
  "maxRetries (example_client 3 (platform_fetch timeout_env)) = 3
   \<and> timer_fires (timeout_env 0)
   \<and> request example_platform (example_client 3 (platform_fetch timeout_env)) ''GET'' ''/x'' no_options =
     (Inl (OtherError ''AbortError'' ''This operation was aborted''),
      [SetTimeout 0 60000,
       Fetch 0 ''https://x.example.com/x''
         \<lparr>init_method = ''GET'', init_headers = example_headers, init_body = None,
          init_signal = Some (ControllerSignal 0)\<rparr>])"
proof -
  let ?c = "example_client 3 (platform_fetch timeout_env)"
  have f: "fetchImpl ?c = platform_fetch timeout_env" and m: "int 0 \<le> maxRetries ?c"
    by (simp_all add: example_client_def)
  have rej: "fetchImpl ?c 0 ''https://x.example.com/x''
        (request_init example_platform example_headers ''GET'' no_options 0) = Rejects abort_error"
    using platform_fetch_timer [OF f, of no_options 0]
    by (simp add: no_options_def timeout_env_def)
  have "request example_platform ?c ''GET'' ''/x'' no_options =
     (Inl abort_error,
      [SetTimeout 0 (timeout ?c),
       Fetch 0 ''https://x.example.com/x'' (request_init example_platform example_headers ''GET'' no_options 0)])"
    using request_loop_throws [OF m attempt_once_rejects [OF rej], where le = None]
    by (simp add: request_def example_buildURL_none example_headers_none abort_error_def)
  then show ?thesis
    by (simp add: abort_error_def example_client_def request_init_def body_init_def
        no_options_def timeout_env_def)
qed

text \<open>
  C3, amended: in a call made without a caller signal, when the internal timeout fires during
  an attempt (the attempts before it, if any, having failed with retryable errors and their
  backoff), the primitive rejects with an \<^verbatim>\<open>AbortError\<close> and the call is not retried: it
  rejects with that error right after this attempt, with no further backoff sleep and no
  further attempt, whatever \<^verbatim>\<open>maxRetries\<close> is.
\<close>

theorem C3_timeout_not_retried:
  assumes url: "buildURL P c path (query options) = Inr u"
    and nosig: "signal options = None"
    and fetch: "fetchImpl c = platform_fetch env"
    and k: "int k \<le> maxRetries c"
    and before: "\<And>i. i < k \<Longrightarrow> \<not> timer_fires (env i) \<and> settles (env i) = Rejects (errs i)
        \<and> \<not> instanceof_CGateAPIError (errs i) \<and> error_name (errs i) \<noteq> ''AbortError''"
    and fires: "timer_fires (env k)"
  shows "request P c meth path options =
      (Inl abort_error,
       concat (map (\<lambda>i. [SetTimeout i (timeout c),
                          Fetch i u (request_init P (buildHeaders c (headers options)) meth options i),
                          Sleep (2 ^ i * 1000)]) [0..<k])
       @ [SetTimeout k (timeout c),
          Fetch k u (request_init P (buildHeaders c (headers options)) meth options k)])
     \<and> error_name abort_error = ''AbortError''
     \<and> attempts (snd (request P c meth path options)) = k + 1
     \<and> filter is_Sleep (snd (request P c meth path options)) = map (\<lambda>i. Sleep (2 ^ i * 1000)) [0..<k]"
proof -
  have rej: "\<And>i. i < k \<Longrightarrow>
        fetchImpl c i u (request_init P (buildHeaders c (headers options)) meth options i) = Rejects (errs i)"
    using before nosig fetch by (simp add: platform_fetch_def request_init_def)
  have last: "fetchImpl c k u (request_init P (buildHeaders c (headers options)) meth options k)
      = Rejects abort_error"
    using platform_fetch_timer [OF fetch nosig fires] .
  have name: "error_name abort_error = ''AbortError''"
    by (simp add: abort_error_def)
  show ?thesis
    using request_stops_at [OF url rej _ _ k last name] before name by simp
qed

theorem C3_timeout_not_retried_witness:
  "buildURL example_platform (example_client 3 (platform_fetch network_then_timeout)) ''/x''
       (query no_options) = Inr ''https://x.example.com/x''
   \<and> signal no_options = None
   \<and> fetchImpl (example_client 3 (platform_fetch network_then_timeout))
       = platform_fetch network_then_timeout
   \<and> int 1 \<le> maxRetries (example_client 3 (platform_fetch network_then_timeout))
   \<and> \<not> timer_fires (network_then_timeout 0)
   \<and> settles (network_then_timeout 0) = Rejects example_error
   \<and> \<not> instanceof_CGateAPIError example_error
   \<and> error_name example_error \<noteq> ''AbortError''
   \<and> timer_fires (network_then_timeout 1)
   \<and> fst (request example_platform (example_client 3 (platform_fetch network_then_timeout))
             ''GET'' ''/x'' no_options) = Inl abort_error
   \<and> attempts (snd (request example_platform (example_client 3 (platform_fetch network_then_timeout))
                       ''GET'' ''/x'' no_options)) = 2
   \<and> filter is_Sleep (snd (request example_platform
                              (example_client 3 (platform_fetch network_then_timeout))
                              ''GET'' ''/x'' no_options)) = [Sleep 1000]"
proof -
  let ?c = "example_client 3 (platform_fetch network_then_timeout)"
  have s: "signal no_options = None"
    and f: "fetchImpl ?c = platform_fetch network_then_timeout"
    and k: "int 1 \<le> maxRetries ?c"
    and fires: "timer_fires (network_then_timeout 1)"
    by (simp_all add: example_client_def no_options_def network_then_timeout_def)
  have b0: "\<not> timer_fires (network_then_timeout 0)"
      "settles (network_then_timeout 0) = Rejects example_error"
      "\<not> instanceof_CGateAPIError example_error" "error_name example_error \<noteq> ''AbortError''"
    by (simp_all add: network_then_timeout_def example_error_def)
  have before: "\<And>i. i < 1 \<Longrightarrow> \<not> timer_fires (network_then_timeout i)
        \<and> settles (network_then_timeout i) = Rejects ((\<lambda>i. example_error) i)
        \<and> \<not> instanceof_CGateAPIError ((\<lambda>i. example_error) i)
        \<and> error_name ((\<lambda>i. example_error) i) \<noteq> ''AbortError''"
    using b0 by simp
  have up: "[0..<1] = [0]"
    by (simp add: upt_rec)
  note t0 = C3_timeout_not_retried [OF example_buildURL_none s f k before fires,
      where meth = "''GET''"]
  have a: "fst (request example_platform ?c ''GET'' ''/x'' no_options) = Inl abort_error"
    using t0 [THEN conjunct1] by simp
  have b: "attempts (snd (request example_platform ?c ''GET'' ''/x'' no_options)) = 2"
    using t0 [THEN conjunct2, THEN conjunct2, THEN conjunct1] by simp
  have c: "filter is_Sleep (snd (request example_platform ?c ''GET'' ''/x'' no_options)) = [Sleep 1000]"
    using t0 [THEN conjunct2, THEN conjunct2, THEN conjunct2] by (simp add: up)
  show ?thesis
    using example_buildURL_none [of 3 "platform_fetch network_then_timeout"] s f k b0 fires a b c
    by simp
qed

text \<open>
  C7, as stated, fails: the caller aborts the signal with a reason of its own, the primitive
  rejects with that reason, whose name is not \<^verbatim>\<open>AbortError\<close>, and with \<^verbatim>\<open>maxRetries = 1\<close> the
  call sleeps one second and makes a second attempt. What it rejects with is the reason, not
  an SDK error.
\<close>

theorem C7_custom_reason_counterexample:
  "signal signal_options = Some ()
   \<and> caller_aborts (cancel_env cancel_reason 0) = Some (OtherError ''Error'' ''cancelled by user'')
   \<and> request example_platform (example_client 1 (platform_fetch (cancel_env cancel_reason)))
         ''GET'' ''/x'' signal_options =
     (Inl (OtherError ''Error'' ''cancelled by user''),
      [SetTimeout 0 60000,
       Fetch 0 ''https://x.example.com/x''
         \<lparr>init_method = ''GET'', init_headers = example_headers, init_body = None,
          init_signal = Some CallerSignal\<rparr>,
       Sleep 1000,
       SetTimeout 1 60000,
       Fetch 1 ''https://x.example.com/x''
         \<lparr>init_method = ''GET'', init_headers = example_headers, init_body = None,
          init_signal = Some CallerSignal\<rparr>])"
proof -
  let ?c = "example_client 1 (platform_fetch (cancel_env cancel_reason))"
  let ?u = "''https://x.example.com/x''"
  have f: "fetchImpl ?c = platform_fetch (cancel_env cancel_reason)"
    and m0: "int 0 < maxRetries ?c" and m1: "int (Suc 0) \<le> maxRetries ?c"
    and last: "int (Suc 0) = maxRetries ?c"
    by (simp_all add: example_client_def)
  have s: "signal signal_options = Some ()"
    by (simp add: signal_options_def)
  have ab: "\<And>i. caller_aborts (cancel_env cancel_reason i) = Some cancel_reason"
    by (simp add: cancel_env_def)
  have rej: "\<And>i. fetchImpl ?c i ?u (request_init example_platform example_headers ''GET'' signal_options i)
       = Rejects cancel_reason"
    using platform_fetch_caller [OF f s ab] .
  have second: "request_loop example_platform ?c ?u example_headers ''GET'' signal_options
       (Some cancel_reason) (Suc 0) =
     (Inl cancel_reason,
      [SetTimeout (Suc 0) (timeout ?c),
       Fetch (Suc 0) ?u (request_init example_platform example_headers ''GET'' signal_options (Suc 0))])"
    using request_loop_throws [OF m1 attempt_once_rejects [OF rej], where le = "Some cancel_reason"]
      last by simp
  have first: "request_loop example_platform ?c ?u example_headers ''GET'' signal_options None 0 =
     after_events
       ([SetTimeout 0 (timeout ?c),
         Fetch 0 ?u (request_init example_platform example_headers ''GET'' signal_options 0)]
        @ [Sleep (2 ^ 0 * 1000)])
       (request_loop example_platform ?c ?u example_headers ''GET'' signal_options
          (Some cancel_reason) (Suc 0))"
    using request_loop_retries [OF m0 attempt_once_rejects [OF rej], where le = None]
    by (simp add: cancel_reason_def)
  have "request example_platform ?c ''GET'' ''/x'' signal_options =
     (Inl cancel_reason,
      [SetTimeout 0 (timeout ?c),
       Fetch 0 ?u (request_init example_platform example_headers ''GET'' signal_options 0),
       Sleep 1000,
       SetTimeout 1 (timeout ?c),
       Fetch 1 ?u (request_init example_platform example_headers ''GET'' signal_options 1)])"
    unfolding request_def example_buildURL_signal example_headers_signal
    by (simp add: first second after_events_def)
  then show ?thesis
    by (simp add: cancel_reason_def example_client_def request_init_def body_init_def
        signal_options_def cancel_env_def)
qed

lemma AbortError_not_SDK: "error_name e = ''AbortError'' \<Longrightarrow> \<not> instanceof_CGateError e"
  by (cases e) simp_all

text \<open>
  C7, amended: when the caller's signal is aborted during an attempt with an abort reason named
  \<^verbatim>\<open>AbortError\<close> (the default reason; the attempts before it, if any, having failed with
  retryable errors), the call rejects with that reason itself, which is neither a
  \<^verbatim>\<open>CGateAPIError\<close> nor a \<^verbatim>\<open>CGateError\<close>, right after this attempt: no retry and no further
  backoff sleep, whatever \<^verbatim>\<open>maxRetries\<close> is.
\<close>

theorem C7_abort_not_retried:
  assumes url: "buildURL P c path (query options) = Inr u"
    and sig: "signal options = Some s"
    and fetch: "fetchImpl c = platform_fetch env"
    and k: "int k \<le> maxRetries c"
    and before: "\<And>i. i < k \<Longrightarrow> caller_aborts (env i) = None \<and> settles (env i) = Rejects (errs i)
        \<and> \<not> instanceof_CGateAPIError (errs i) \<and> error_name (errs i) \<noteq> ''AbortError''"
    and aborts: "caller_aborts (env k) = Some reason"
    and name: "error_name reason = ''AbortError''"
  shows "request P c meth path options =
      (Inl reason,
       concat (map (\<lambda>i. [SetTimeout i (timeout c),
                          Fetch i u (request_init P (buildHeaders c (headers options)) meth options i),
                          Sleep (2 ^ i * 1000)]) [0..<k])
       @ [SetTimeout k (timeout c),
          Fetch k u (request_init P (buildHeaders c (headers options)) meth options k)])
     \<and> \<not> instanceof_CGateAPIError reason
     \<and> \<not> instanceof_CGateError reason
     \<and> attempts (snd (request P c meth path options)) = k + 1
     \<and> filter is_Sleep (snd (request P c meth path options)) = map (\<lambda>i. Sleep (2 ^ i * 1000)) [0..<k]"
proof -
  have rej: "\<And>i. i < k \<Longrightarrow>
        fetchImpl c i u (request_init P (buildHeaders c (headers options)) meth options i) = Rejects (errs i)"
    using before sig fetch by (simp add: platform_fetch_def request_init_def)
  have last: "fetchImpl c k u (request_init P (buildHeaders c (headers options)) meth options k)
      = Rejects reason"
    using platform_fetch_caller [OF fetch sig aborts] .
  have "\<not> instanceof_CGateAPIError reason"
    using name by (cases reason) simp_all
  then show ?thesis
    using request_stops_at [OF url rej _ _ k last name] before AbortError_not_SDK [OF name] by simp
qed

theorem C7_abort_not_retried_witness:
  "buildURL example_platform (example_client 3 (platform_fetch network_then_abort)) ''/x''
       (query signal_options) = Inr ''https://x.example.com/x''
   \<and> signal signal_options = Some ()
   \<and> fetchImpl (example_client 3 (platform_fetch network_then_abort))
       = platform_fetch network_then_abort
   \<and> int 1 \<le> maxRetries (example_client 3 (platform_fetch network_then_abort))
   \<and> caller_aborts (network_then_abort 0) = None
   \<and> settles (network_then_abort 0) = Rejects example_error
   \<and> \<not> instanceof_CGateAPIError example_error
   \<and> error_name example_error \<noteq> ''AbortError''
   \<and> caller_aborts (network_then_abort 1) = Some abort_error
   \<and> error_name abort_error = ''AbortError''
   \<and> fst (request example_platform (example_client 3 (platform_fetch network_then_abort))
             ''GET'' ''/x'' signal_options) = Inl abort_error
   \<and> \<not> instanceof_CGateError abort_error
   \<and> attempts (snd (request example_platform (example_client 3 (platform_fetch network_then_abort))
                       ''GET'' ''/x'' signal_options)) = 2"
proof -
  let ?c = "example_client 3 (platform_fetch network_then_abort)"
  have s: "signal signal_options = Some ()"
    and f: "fetchImpl ?c = platform_fetch network_then_abort"
    and k: "int 1 \<le> maxRetries ?c"
    and ab: "caller_aborts (network_then_abort 1) = Some abort_error"
    and n: "error_name abort_error = ''AbortError''"
    by (simp_all add: example_client_def signal_options_def network_then_abort_def abort_error_def)
  have b0: "caller_aborts (network_then_abort 0) = None"
      "settles (network_then_abort 0) = Rejects example_error"
      "\<not> instanceof_CGateAPIError example_error" "error_name example_error \<noteq> ''AbortError''"
    by (simp_all add: network_then_abort_def example_error_def)
  have before: "\<And>i. i < 1 \<Longrightarrow> caller_aborts (network_then_abort i) = None
        \<and> settles (network_then_abort i) = Rejects ((\<lambda>i. example_error) i)
        \<and> \<not> instanceof_CGateAPIError ((\<lambda>i. example_error) i)
        \<and> error_name ((\<lambda>i. example_error) i) \<noteq> ''AbortError''"
    using b0 by simp
  note t0 = C7_abort_not_retried [OF example_buildURL_signal s f k before ab n,
      where meth = "''GET''"]
  have a: "fst (request example_platform ?c ''GET'' ''/x'' signal_options) = Inl abort_error"
    using t0 [THEN conjunct1] by simp
  have b: "\<not> instanceof_CGateError abort_error"
    using t0 [THEN conjunct2, THEN conjunct2, THEN conjunct1] .
  have c: "attempts (snd (request example_platform ?c ''GET'' ''/x'' signal_options)) = 2"
    using t0 [THEN conjunct2, THEN conjunct2, THEN conjunct2, THEN conjunct1] by simp
  show ?thesis
    using example_buildURL_signal [of 3 "platform_fetch network_then_abort"] s f k b0 ab n a b c
    by simp
qed

text \<open>
  C9, as stated, fails: the body \<^verbatim>\<open>false\<close> is supplied, its JSON serialisation is
  \<^verbatim>\<open>false\<close>, and the primitive is invoked with no body.
\<close>

theorem C9_falsy_body_counterexample:
  \<open>body false_body_options = Some (JBool False)
   \<and> JSON_stringify example_platform (JBool False) = ''false''
   \<and> request example_platform (example_client 0 failing_fetch) ''POST'' ''/x'' false_body_options =
     (Inl (OtherError ''TypeError'' ''fetch failed''),
      [SetTimeout 0 60000,
       Fetch 0 ''https://x.example.com/x''
         \<lparr>init_method = ''POST'', init_headers = example_headers, init_body = None,
          init_signal = Some (ControllerSignal 0)\<rparr>])\<close>
proof -
  let ?c = "example_client 0 failing_fetch"
  have rej: "fetchImpl ?c 0 ''https://x.example.com/x''
        (request_init example_platform example_headers ''POST'' false_body_options 0) = Rejects example_error"
    by (simp add: example_client_def failing_fetch_def)
  have url: "buildURL example_platform ?c ''/x'' (query false_body_options) = Inr ''https://x.example.com/x''"
    using example_buildURL by (simp add: false_body_options_def)
  have hd: "buildHeaders ?c (headers false_body_options) = example_headers"
    using example_buildHeaders by (simp add: false_body_options_def)
  have "request example_platform ?c ''POST'' ''/x'' false_body_options =
     (Inl example_error,
      [SetTimeout 0 (timeout ?c),
       Fetch 0 ''https://x.example.com/x''
         (request_init example_platform example_headers ''POST'' false_body_options 0)])"
    using request_loop_throws [OF _ attempt_once_rejects [OF rej], where le = None]
    by (simp add: request_def url hd) (simp add: example_client_def)
  then show ?thesis
    by (simp add: example_error_def example_client_def request_init_def body_init_def
        false_body_options_def example_platform_def)
qed

lemma read_loop_events: "ev \<in> set (snd (snd (read_loop P rs buf))) \<Longrightarrow> ev = Read"
  by (induction P rs buf rule: read_loop.induct) (auto simp: Let_def split: prod.splits if_splits)

lemma read_loop_events_tuple:
  "read_loop P rs buf = (ys, err, evs) \<Longrightarrow> ev \<in> set evs \<Longrightarrow> ev = Read"
  using read_loop_events [of ev P rs buf] by simp

lemma stream_fetches:
  "Fetch i u' init \<in> set (snd (snd (stream P c meth path options))) \<Longrightarrow>
   init = stream_init P (buildHeaders c (headers options)) meth options"
  by (auto simp: stream_def Let_def
      split: sum.splits fetch_result.splits if_splits option.splits prod.splits
      dest: read_loop_events_tuple)

text \<open>
  C9, amended: every invocation of the primitive by \<^verbatim>\<open>request\<close> or \<^verbatim>\<open>stream\<close> carries exactly the
  JSON serialisation of the body when a truthy body is supplied, and no body at all when the
  body is absent or falsy (\<^verbatim>\<open>null\<close>, \<^verbatim>\<open>false\<close>, 0, the empty string).
\<close>

theorem C9_request_body:
  "(\<forall>i u init. Fetch i u init \<in> set (snd (request P c meth path options)) \<longrightarrow>
      init_body init = (case body options of
                          Some b \<Rightarrow> if js_truthy b then Some (JSON_stringify P b) else None
                        | None \<Rightarrow> None))
   \<and> (\<forall>i u init. Fetch i u init \<in> set (snd (snd (stream P c meth path options))) \<longrightarrow>
      init_body init = (case body options of
                          Some b \<Rightarrow> if js_truthy b then Some (JSON_stringify P b) else None
                        | None \<Rightarrow> None))"
proof (intro conjI allI impI)
  fix i u init
  assume "Fetch i u init \<in> set (snd (request P c meth path options))"
  then have "init = request_init P (buildHeaders c (headers options)) meth options i"
    using request_loop_fetches [of i u init P c _ "buildHeaders c (headers options)" meth options None 0]
    by (auto simp: request_def split: sum.splits)
  then show "init_body init = (case body options of
                          Some b \<Rightarrow> if js_truthy b then Some (JSON_stringify P b) else None
                        | None \<Rightarrow> None)"
    by (simp add: request_init_def body_init_def)
next
  fix i u init
  assume "Fetch i u init \<in> set (snd (snd (stream P c meth path options)))"
  then have "init = stream_init P (buildHeaders c (headers options)) meth options"
    by (rule stream_fetches)
  then show "init_body init = (case body options of
                          Some b \<Rightarrow> if js_truthy b then Some (JSON_stringify P b) else None
                        | None \<Rightarrow> None)"
    by (simp add: stream_init_def body_init_def)
qed

theorem C9_request_body_witness:
  \<open>Fetch 0 ''https://x.example.com/x''
       (request_init example_platform example_headers ''POST'' model_body_options 0)
     \<in> set (snd (request example_platform (example_client 0 failing_fetch) ''POST'' ''/x'' model_body_options))
   \<and> init_body (request_init example_platform example_headers ''POST'' model_body_options 0)
       = Some ''{"model":"gpt-4"}''
   \<and> Fetch 0 ''https://x.example.com/x''
       (stream_init example_platform example_headers ''POST'' model_body_options)
     \<in> set (snd (snd (stream example_platform (example_client 0 failing_fetch) ''POST'' ''/x'' model_body_options)))
   \<and> init_body (stream_init example_platform example_headers ''POST'' model_body_options)
       = Some ''{"model":"gpt-4"}''\<close>
proof -
  let ?c = "example_client 0 failing_fetch"
  let ?u = "''https://x.example.com/x''"
  let ?ri = "request_init example_platform example_headers ''POST'' model_body_options 0"
  let ?si = "stream_init example_platform example_headers ''POST'' model_body_options"
  have rej: "fetchImpl ?c 0 ?u ?ri = Rejects example_error"
    by (simp add: example_client_def failing_fetch_def)
  have url: "buildURL example_platform ?c ''/x'' (query model_body_options) = Inr ?u"
    using example_buildURL by (simp add: model_body_options_def)
  have hd: "buildHeaders ?c (headers model_body_options) = example_headers"
    using example_buildHeaders by (simp add: model_body_options_def)
  have "request example_platform ?c ''POST'' ''/x'' model_body_options =
     (Inl example_error, [SetTimeout 0 (timeout ?c), Fetch 0 ?u ?ri])"
    using request_loop_throws [OF _ attempt_once_rejects [OF rej], where le = None]
    by (simp add: request_def url hd) (simp add: example_client_def)
  then have r_in: "Fetch 0 ?u ?ri
      \<in> set (snd (request example_platform ?c ''POST'' ''/x'' model_body_options))"
    by simp
  have "stream example_platform ?c ''POST'' ''/x'' model_body_options =
     ([], Some example_error, [Fetch 0 ?u ?si])"
    by (simp add: stream_def url hd Let_def) (simp add: example_client_def failing_fetch_def)
  then have s_in: "Fetch 0 ?u ?si
      \<in> set (snd (snd (stream example_platform ?c ''POST'' ''/x'' model_body_options)))"
    by simp
  note t0 = C9_request_body [of example_platform ?c "''POST''" "''/x''" model_body_options]
  have rb: "init_body ?ri = Some (JSON_stringify example_platform (JObj [(''model'', JStr ''gpt-4'')]))"
    using t0 [THEN conjunct1, rule_format, OF r_in] by (simp add: model_body_options_def)
  have sb: "init_body ?si = Some (JSON_stringify example_platform (JObj [(''model'', JStr ''gpt-4'')]))"
    using t0 [THEN conjunct2, rule_format, OF s_in] by (simp add: model_body_options_def)
  have str: \<open>JSON_stringify example_platform (JObj [(''model'', JStr ''gpt-4'')]) = ''{"model":"gpt-4"}''\<close>
    by (simp add: example_platform_def)
  show ?thesis
    using r_in s_in rb sb str by simp
qed

section \<open>Properties of the stream decoder\<close>

lemma split_on_nonempty: "split_on sep s \<noteq> []"
  by (induction s) (auto split: list.splits)

lemma split_on_append:
  "split_on sep (a @ b) = butlast (split_on sep a) @ split_on sep (last (split_on sep a) @ b)"
proof (induction a)
  case Nil
  show ?case by simp
next
  case (Cons c cs)
  obtain l ls where sp: "split_on sep cs = l # ls"
    using split_on_nonempty [of sep cs] by (cases "split_on sep cs") auto
  show ?case
  proof (cases "c = sep")
    case True
    with Cons sp show ?thesis by simp
  next
    case False
    with Cons sp show ?thesis
      by (cases ls) (auto split: list.splits simp: split_on_nonempty)
  qed
qed

lemma split_on_last: "split_on sep (last (split_on sep s)) = [last (split_on sep s)]"
proof (induction s)
  case Nil
  show ?case by simp
next
  case (Cons c cs)
  obtain l ls where sp: "split_on sep cs = l # ls"
    using split_on_nonempty [of sep cs] by (cases "split_on sep cs") auto
  show ?case
  proof (cases "c = sep")
    case True
    with Cons sp show ?thesis by simp
  next
    case False
    with Cons sp show ?thesis
      by (cases ls) (auto split: list.splits)
  qed
qed

lemma complete_lines_append:
  "complete_lines (a @ b) = complete_lines a @ complete_lines (last (split_on newline a) @ b)"
  unfolding complete_lines_def
  by (subst split_on_append) (simp add: butlast_append split_on_nonempty)

lemma complete_lines_last: "complete_lines (last (split_on newline s)) = []"
  by (simp add: complete_lines_def split_on_last)

lemma data_payloads_lines: "data_payloads text = line_payloads (complete_lines text)"
  by (simp add: data_payloads_def line_payloads_def)

lemma line_payloads_append: "line_payloads (xs @ ys) = line_payloads xs @ line_payloads ys"
  by (simp add: line_payloads_def)

lemma process_lines_values:
  "fst (process_lines P ls) =
     List.map_filter (JSON_parse P) (takeWhile (\<lambda>p. p \<noteq> ''[DONE]'') (line_payloads ls))"
  by (induction ls)
    (auto simp: line_payloads_def Let_def List.map_filter_simps split: option.splits prod.splits)

lemma process_lines_done:
  "snd (process_lines P ls) = (''[DONE]'' \<in> set (line_payloads ls))"
  by (induction ls)
    (auto simp: line_payloads_def Let_def split: option.splits prod.splits)

lemma map_filter_append: "List.map_filter f (xs @ ys) = List.map_filter f xs @ List.map_filter f ys"
  by (simp add: List.map_filter_def)

lemma decoded_append:
  "decoded P (xs @ ys) =
     (if ''[DONE]'' \<in> set (line_payloads xs) then decoded P xs else decoded P xs @ decoded P ys)"
proof (cases "''[DONE]'' \<in> set (line_payloads xs)")
  case True
  then have "takeWhile (\<lambda>p. p \<noteq> ''[DONE]'') (line_payloads xs @ line_payloads ys)
      = takeWhile (\<lambda>p. p \<noteq> ''[DONE]'') (line_payloads xs)"
    by (intro takeWhile_append1 [where x = "''[DONE]''"]) simp_all
  with True show ?thesis
    by (simp add: decoded_def line_payloads_append)
next
  case False
  then have all: "\<And>p. p \<in> set (line_payloads xs) \<Longrightarrow> p \<noteq> ''[DONE]''"
    by auto
  have tw1: "takeWhile (\<lambda>p. p \<noteq> ''[DONE]'') (line_payloads xs @ line_payloads ys)
      = line_payloads xs @ takeWhile (\<lambda>p. p \<noteq> ''[DONE]'') (line_payloads ys)"
    by (rule takeWhile_append2) (rule all)
  have tw2: "takeWhile (\<lambda>p. p \<noteq> ''[DONE]'') (line_payloads xs) = line_payloads xs"
    using all by (simp add: takeWhile_eq_all_conv)
  show ?thesis
    using False by (simp add: decoded_def line_payloads_append map_filter_append tw1 tw2)
qed

lemma read_loop_values:
  "complete_lines buf = [] \<Longrightarrow>
   fst (read_loop P (map Chunk cs) buf) = decoded P (complete_lines (buf @ concat cs))"
proof (induction cs arbitrary: buf)
  case Nil
  then show ?case by (simp add: decoded_def line_payloads_def)
next
  case (Cons v rest)
  let ?lines = "split_on newline (buf @ v)"
  obtain ys d where pl: "process_lines P (butlast ?lines) = (ys, d)"
    by (cases "process_lines P (butlast ?lines)")
  have ys: "ys = decoded P (complete_lines (buf @ v))"
    using process_lines_values [of P "butlast ?lines"] pl
    by (simp add: decoded_def complete_lines_def)
  have d: "d = (''[DONE]'' \<in> set (line_payloads (complete_lines (buf @ v))))"
    using process_lines_done [of P "butlast ?lines"] pl
    by (simp add: complete_lines_def)
  have whole: "complete_lines (buf @ concat (v # rest))
      = complete_lines (buf @ v) @ complete_lines (last ?lines @ concat rest)"
    using complete_lines_append [of "buf @ v" "concat rest"] by simp
  have ih: "fst (read_loop P (map Chunk rest) (last ?lines))
      = decoded P (complete_lines (last ?lines @ concat rest))"
    by (rule Cons.IH) (rule complete_lines_last)
  show ?case
    unfolding whole decoded_append
    using pl ys d ih
    by (auto simp: Let_def split: prod.splits)
qed

lemma read_loop_no_error: "fst (snd (read_loop P (map Chunk cs) buf)) = None"
proof (induction cs arbitrary: buf)
  case Nil
  show ?case by simp
next
  case (Cons v rest)
  show ?case
    using Cons.IH [of "last (split_on newline (buf @ v))"]
    by (auto simp: Let_def split: prod.splits)
qed

lemma reads_read_loop: "reads (snd (snd (read_loop P rs buf))) = length (snd (snd (read_loop P rs buf)))"
  unfolding reads_def
  by (rule arg_cong [where f = length]) (auto intro: filter_True dest: read_loop_events)

lemma read_loop_exhausts:
  "''[DONE]'' \<notin> set (line_payloads (complete_lines (buf @ concat cs))) \<Longrightarrow>
   length (snd (snd (read_loop P (map Chunk cs) buf))) = length cs + 1"
proof (induction cs arbitrary: buf)
  case Nil
  show ?case by simp
next
  case (Cons v rest)
  let ?lines = "split_on newline (buf @ v)"
  have whole: "complete_lines (buf @ concat (v # rest))
      = complete_lines (buf @ v) @ complete_lines (last ?lines @ concat rest)"
    using complete_lines_append [of "buf @ v" "concat rest"] by simp
  from Cons.prems have no1: "''[DONE]'' \<notin> set (line_payloads (complete_lines (buf @ v)))"
    and no2: "''[DONE]'' \<notin> set (line_payloads (complete_lines (last ?lines @ concat rest)))"
    unfolding whole by (simp_all add: line_payloads_append)
  have "\<not> snd (process_lines P (butlast ?lines))"
    using no1 by (simp add: process_lines_done complete_lines_def)
  then show ?case
    using Cons.IH [OF no2] by (auto simp: Let_def split: prod.splits)
qed

lemma read_loop_stops:
  "complete_lines buf = [] \<Longrightarrow>
   ''[DONE]'' \<in> set (line_payloads (complete_lines (buf @ concat (take k cs)))) \<Longrightarrow>
   length (snd (snd (read_loop P (map Chunk cs) buf))) \<le> k"
proof (induction cs arbitrary: buf k)
  case Nil
  then show ?case by (simp add: line_payloads_def)
next
  case (Cons v rest)
  let ?lines = "split_on newline (buf @ v)"
  show ?case
  proof (cases k)
    case 0
    with Cons.prems show ?thesis by (simp add: line_payloads_def)
  next
    case (Suc j)
    have whole: "complete_lines (buf @ concat (take k (v # rest)))
        = complete_lines (buf @ v) @ complete_lines (last ?lines @ concat (take j rest))"
      using complete_lines_append [of "buf @ v" "concat (take j rest)"] Suc by simp
    show ?thesis
    proof (cases "snd (process_lines P (butlast ?lines))")
      case True
      then show ?thesis
        using Suc by (auto simp: Let_def split: prod.splits)
    next
      case False
      then have "''[DONE]'' \<notin> set (line_payloads (complete_lines (buf @ v)))"
        by (simp add: process_lines_done complete_lines_def)
      with Cons.prems(2) have "''[DONE]'' \<in> set (line_payloads (complete_lines (last ?lines @ concat (take j rest))))"
        unfolding whole by (simp add: line_payloads_append)
      from Cons.IH [OF complete_lines_last this]
      show ?thesis
        using False Suc by (auto simp: Let_def split: prod.splits)
    qed
  qed
qed

text \<open>
  C4: for a 2xx response whose body delivers the chunks \<open>cs\<close>, the values \<^verbatim>\<open>stream\<close> yields are
  exactly the JSON values of the payloads of the complete trimmed lines of the whole text that
  start with \<^verbatim>\<open>data: \<close>, in order, up to the first payload \<^verbatim>\<open>[DONE]\<close>, the payloads that do not
  parse being skipped; the sequence ends without an error; once the chunks read so far contain
  the sentinel line no further read is made, and without a sentinel every chunk is read and
  the sequence ends at the read that reports exhaustion.
\<close>

theorem C4_stream_decoding:
  assumes url: "buildURL P c path (query options) = Inr u"
    and resolves: "fetchImpl c 0 u (stream_init P (buildHeaders c (headers options)) meth options)
                     = Resolves r"
    and ok: "ok r"
    and chunks: "body_chunks r = Some (map Chunk cs)"
  shows "fst (stream P c meth path options) = sse_values P (concat cs)
     \<and> fst (snd (stream P c meth path options)) = None
     \<and> (\<forall>k. ''[DONE]'' \<in> set (data_payloads (concat (take k cs)))
            \<longrightarrow> reads (snd (snd (stream P c meth path options))) \<le> k)
     \<and> (''[DONE]'' \<notin> set (data_payloads (concat cs))
            \<longrightarrow> reads (snd (snd (stream P c meth path options))) = length cs + 1)"
proof -
  obtain ys err evs where rl: "read_loop P (map Chunk cs) [] = (ys, err, evs)"
    by (cases "read_loop P (map Chunk cs) []") auto
  have st: "stream P c meth path options =
      (ys, err, [Fetch 0 u (stream_init P (buildHeaders c (headers options)) meth options)]
                @ evs @ [ReleaseLock])"
    using url resolves ok chunks rl by (simp add: stream_def Let_def)
  have empty: "complete_lines [] = []"
    by (simp add: complete_lines_def)
  have "ys = sse_values P (concat cs)"
    using read_loop_values [OF empty, of P cs] rl
    by (simp add: decoded_def sse_values_def data_payloads_lines)
  moreover have "err = None"
    using read_loop_no_error [of P cs "[]"] rl by simp
  moreover have rd: "reads ([Fetch 0 u (stream_init P (buildHeaders c (headers options)) meth options)]
                @ evs @ [ReleaseLock]) = length evs"
    using reads_read_loop [of P "map Chunk cs" "[]"] rl by (simp add: reads_def)
  moreover have "\<And>k. ''[DONE]'' \<in> set (data_payloads (concat (take k cs))) \<Longrightarrow> length evs \<le> k"
    using read_loop_stops [OF empty, of _ cs P] rl by (simp add: data_payloads_lines)
  moreover have "''[DONE]'' \<notin> set (data_payloads (concat cs)) \<Longrightarrow> length evs = length cs + 1"
    using read_loop_exhausts [of "[]" cs P] rl by (simp add: data_payloads_lines)
  ultimately show ?thesis
    unfolding st by simp
qed

lemma sse_payloads:
  \<open>data_payloads (concat sse_chunks) = [''not-json'', ''{"a":1}'', ''[DONE]'', ''{"b":2}'']\<close>
  by (simp add: data_payloads_def complete_lines_def sse_chunks_def newline_def trim_def
      strip_ws.simps ws_len_def js_whitespace_def startsWith_def)

theorem C4_stream_decoding_witness:
  \<open>buildURL example_platform (example_client 3 sse_fetch) ''/x'' (query no_options)
     = Inr ''https://x.example.com/x''
   \<and> fetchImpl (example_client 3 sse_fetch) 0 ''https://x.example.com/x''
        (stream_init example_platform (buildHeaders (example_client 3 sse_fetch) (headers no_options))
           ''POST'' no_options) = Resolves sse_response
   \<and> ok sse_response
   \<and> body_chunks sse_response = Some (map Chunk sse_chunks)
   \<and> ''[DONE]'' \<in> set (data_payloads (concat (take 2 sse_chunks)))
   \<and> fst (stream example_platform (example_client 3 sse_fetch) ''POST'' ''/x'' no_options)
       = [JObj [(''a'', JNum 1)]]
   \<and> fst (snd (stream example_platform (example_client 3 sse_fetch) ''POST'' ''/x'' no_options)) = None
   \<and> reads (snd (snd (stream example_platform (example_client 3 sse_fetch) ''POST'' ''/x'' no_options))) \<le> 2\<close>
proof -
  let ?c = "example_client 3 sse_fetch"
  have url: "buildURL example_platform ?c ''/x'' (query no_options) = Inr ''https://x.example.com/x''"
    using example_buildURL by (simp add: no_options_def)
  have res: "fetchImpl ?c 0 ''https://x.example.com/x''
        (stream_init example_platform (buildHeaders ?c (headers no_options)) ''POST'' no_options)
       = Resolves sse_response"
    by (simp add: example_client_def sse_fetch_def)
  have ok: "ok sse_response"
    by (simp add: ok_def sse_response_def)
  have ch: "body_chunks sse_response = Some (map Chunk sse_chunks)"
    by (simp add: sse_response_def)
  have tk: "take 2 sse_chunks = sse_chunks"
    by (simp add: sse_chunks_def)
  have dn: "''[DONE]'' \<in> set (data_payloads (concat (take 2 sse_chunks)))"
    unfolding tk sse_payloads by simp
  have vals: \<open>sse_values example_platform (concat sse_chunks) = [JObj [(''a'', JNum 1)]]\<close>
    unfolding sse_values_def sse_payloads
    by (simp add: List.map_filter_simps example_platform_def example_parse_def)
  note t0 = C4_stream_decoding [OF url res ok ch]
  have a: "fst (stream example_platform ?c ''POST'' ''/x'' no_options) = [JObj [(''a'', JNum 1)]]"
    using t0 [THEN conjunct1] vals by simp
  have b: "fst (snd (stream example_platform ?c ''POST'' ''/x'' no_options)) = None"
    using t0 [THEN conjunct2, THEN conjunct1] .
  have c: "reads (snd (snd (stream example_platform ?c ''POST'' ''/x'' no_options))) \<le> 2"
    using t0 [THEN conjunct2, THEN conjunct2, THEN conjunct1, rule_format, OF dn] .
  show ?thesis
    using url res ok ch dn a b c by simp
qed

section \<open>Properties of URL building\<close>

lemma standard_URL_versioned:
  "standard_URL ''chat'' ''https://x.example.com/api/v1''
     = Some \<lparr>url_prefix = ''https://x.example.com/api/chat'', url_query = None,
              url_searchParams = [], url_fragment = None\<rparr>"
  by (simp add: standard_URL_def parse_base_def startsWith_def valid_host_def
      plain_path_char_def lower_alpha_def plain_url_def Let_def)

lemma standard_URL_default:
  "standard_URL ''api/client/v1/embeddings'' ''https://api.cognipeer.com/api/client/v1''
     = Some \<lparr>url_prefix = ''https://api.cognipeer.com/api/client/api/client/v1/embeddings'',
              url_query = None, url_searchParams = [], url_fragment = None\<rparr>"
  by (simp add: standard_URL_def parse_base_def startsWith_def valid_host_def
      plain_path_char_def lower_alpha_def plain_url_def Let_def)

text \<open>
  C1 fails on the code: the base URL loses its trailing slash at construction and the path its
  leading slash, and \<^verbatim>\<open>new URL(path, base)\<close> then resolves the path against the base as a
  relative reference, which replaces the last segment of the base's path. With the base
  \<^verbatim>\<open>https://x.example.com/api/v1/\<close> the path \<^verbatim>\<open>/chat\<close> is sent to \<^verbatim>\<open>/api/chat\<close> (the defined query
  parameter is appended once, the undefined one is left out); with the default base URL the
  path of the embeddings resource loses the \<^verbatim>\<open>v1\<close> of the base.
\<close>

theorem C1_last_base_segment_replaced:
  assumes std: "follows_URL_standard P"
    and key: "opt_apiKey options \<noteq> []"
    and fetch: "opt_fetch options = Some f"
  shows "(opt_baseURL options = Val ''https://x.example.com/api/v1/'' \<longrightarrow>
          (\<exists>c. CGateClient_new P options = Inr c
             \<and> baseURL c = ''https://x.example.com/api/v1''
             \<and> buildURL P c ''/chat'' (Some [(''limit'', QStr ''5''), (''cursor'', QUndefined)])
                 = Inr ''https://x.example.com/api/chat?limit=5''))
     \<and> (opt_baseURL options = Undefined \<longrightarrow>
          (\<exists>c. CGateClient_new P options = Inr c
             \<and> baseURL c = ''https://api.cognipeer.com/api/client/v1''
             \<and> buildURL P c ''/api/client/v1/embeddings'' None
                 = Inr ''https://api.cognipeer.com/api/client/api/client/v1/embeddings''))"
proof -
  have v: "new_URL P ''chat'' ''https://x.example.com/api/v1''
      = Inr \<lparr>url_prefix = ''https://x.example.com/api/chat'', url_query = None,
              url_searchParams = [], url_fragment = None\<rparr>"
    using std standard_URL_versioned by (simp add: follows_URL_standard_def)
  have d: "new_URL P ''api/client/v1/embeddings'' ''https://api.cognipeer.com/api/client/v1''
      = Inr \<lparr>url_prefix = ''https://api.cognipeer.com/api/client/api/client/v1/embeddings'',
              url_query = None, url_searchParams = [], url_fragment = None\<rparr>"
    using std standard_URL_default by (simp add: follows_URL_standard_def)
  show ?thesis
    using key fetch v d
    by (auto simp: CGateClient_new_def HttpClient_new_def Let_def DEFAULT_BASE_URL_def
        strip_trailing_slash_def buildURL_def startsWith_def url_toString_def
        searchParams_append_def form_serialize_def form_encode_def form_encode_byte_def
        form_unreserved_def)
qed

lemma example_platform_follows: "follows_URL_standard example_platform"
  by (simp add: follows_URL_standard_def example_platform_def)

theorem C1_last_base_segment_replaced_witness:
  "follows_URL_standard example_platform
   \<and> opt_apiKey versioned_options \<noteq> []
   \<and> opt_fetch versioned_options = Some failing_fetch
   \<and> opt_baseURL versioned_options = Val ''https://x.example.com/api/v1/''
   \<and> (\<exists>c. CGateClient_new example_platform versioned_options = Inr c
          \<and> baseURL c = ''https://x.example.com/api/v1''
          \<and> buildURL example_platform c ''/chat''
                (Some [(''limit'', QStr ''5''), (''cursor'', QUndefined)])
              = Inr ''https://x.example.com/api/chat?limit=5'')
   \<and> opt_apiKey default_options \<noteq> []
   \<and> opt_fetch default_options = Some failing_fetch
   \<and> opt_baseURL default_options = Undefined
   \<and> (\<exists>c. CGateClient_new example_platform default_options = Inr c
          \<and> baseURL c = ''https://api.cognipeer.com/api/client/v1''
          \<and> buildURL example_platform c ''/api/client/v1/embeddings'' None
              = Inr ''https://api.cognipeer.com/api/client/api/client/v1/embeddings'')"
proof -
  have kv: "opt_apiKey versioned_options \<noteq> []" and fv: "opt_fetch versioned_options = Some failing_fetch"
    and bv: "opt_baseURL versioned_options = Val ''https://x.example.com/api/v1/''"
    by (simp_all add: versioned_options_def)
  have kd: "opt_apiKey default_options \<noteq> []" and fd: "opt_fetch default_options = Some failing_fetch"
    and bd: "opt_baseURL default_options = Undefined"
    by (simp_all add: default_options_def)
  note tv = C1_last_base_segment_replaced [OF example_platform_follows kv fv, THEN conjunct1, rule_format, OF bv]
  note td = C1_last_base_segment_replaced [OF example_platform_follows kd fd, THEN conjunct2, rule_format, OF bd]
  show ?thesis
    using example_platform_follows kv fv bv kd fd bd tv td by simp
qed

end
